theory Spec2Isabelle
  imports Main "HOL-Library.Word"
begin

unbundle bit_operations_syntax

section \<open>JavaScript strings\<close>

text \<open>
  A JavaScript string is a sequence of UTF-16 code units; \<open>charCodeAt\<close> reads one of them
  as a number between 0 and 65535. Literals of the source are written \<open>js ''...''\<close>.
\<close>

type_synonym jschar = "16 word"
type_synonym jsstring = "jschar list"

definition js :: "string \<Rightarrow> jsstring" where
  "js s = map (\<lambda>c. of_nat (of_char c)) s"

text \<open>
  \<open>String.prototype.trim\<close> removes the code units of the ECMAScript productions
  WhiteSpace and LineTerminator from both ends. All of them are single code units.
\<close>

definition isWhiteSpace :: "jschar \<Rightarrow> bool" where
  "isWhiteSpace c \<longleftrightarrow>
     c = 0x0009 \<or> c = 0x000A \<or> c = 0x000B \<or> c = 0x000C \<or> c = 0x000D \<or> c = 0x0020 \<or>
     c = 0x00A0 \<or> c = 0x1680 \<or> (0x2000 \<le> c \<and> c \<le> 0x200A) \<or> c = 0x2028 \<or>
     c = 0x2029 \<or> c = 0x202F \<or> c = 0x205F \<or> c = 0x3000 \<or> c = 0xFEFF"

definition trim :: "jsstring \<Rightarrow> jsstring" where
  "trim s = rev (dropWhile isWhiteSpace (rev (dropWhile isWhiteSpace s)))"

text \<open>
  \<open>String.prototype.toUpperCase\<close> follows the Unicode case mapping. On a string of ASCII
  code units it maps \<open>a\<close>..\<open>z\<close> to \<open>A\<close>..\<open>Z\<close> and keeps every other unit. The mapping of
  strings that hold a non-ASCII unit (which may change the length, and treats surrogate
  pairs as one character) is not in the repository: it is the parameter \<open>U\<close>, and every
  theorem holds for every \<open>U\<close>.
\<close>

definition isAscii :: "jschar \<Rightarrow> bool" where
  "isAscii c \<longleftrightarrow> c < 0x80"

definition asciiUpper :: "jschar \<Rightarrow> jschar" where
  "asciiUpper c = (if 0x61 \<le> c \<and> c \<le> 0x7A then c - 0x20 else c)"

definition toUpperCase :: "(jsstring \<Rightarrow> jsstring) \<Rightarrow> jsstring \<Rightarrow> jsstring" where
  "toUpperCase U s = (if list_all isAscii s then map asciiUpper s else U s)"

section \<open>Presence colour: \<open>pickColor\<close>\<close>

text \<open>
  \<open>const userColors = ['#2b6cb0', '#2f855a', '#b83280', '#c05621', '#6b46c1']\<close>
\<close>

definition userColors :: "jsstring list" where
  "userColors = [js ''#2b6cb0'', js ''#2f855a'', js ''#b83280'', js ''#c05621'', js ''#6b46c1'']"

text \<open>
  JavaScript numbers are doubles; the bitwise operators convert their operands with
  ToInt32 and give an int32. \<open>hash\<close> is an int32 after every \<open>hash |= 0\<close>, so
  \<open>(hash << 5) - hash + value.charCodeAt(i)\<close> is below \<open>2 ^ 37\<close> in magnitude and the
  double arithmetic is exact: the numbers are modelled as \<open>int\<close>.
\<close>

definition toInt32 :: "int \<Rightarrow> int" where
  "toInt32 x = (let m = x mod 2 ^ 32 in if 2 ^ 31 \<le> m then m - 2 ^ 32 else m)"

definition shiftLeft :: "int \<Rightarrow> nat \<Rightarrow> int" where
  "shiftLeft x n = toInt32 (toInt32 x * 2 ^ (n mod 32))"

text \<open>
  \<^verbatim>\<open>
  let hash = 0
  for (let i = 0; i < value.length; i += 1) {
    hash = (hash << 5) - hash + value.charCodeAt(i)
    hash |= 0
  }
  return userColors[Math.abs(hash) % userColors.length]
  \<close>
  The loop visits the code units in order; \<open>pickColor_loop\<close> takes the current \<open>hash\<close>
  and the units still to visit. An array read out of range gives \<open>undefined\<close>: \<open>None\<close>.
\<close>

fun pickColor_loop :: "int \<Rightarrow> jsstring \<Rightarrow> int" where
  "pickColor_loop hash [] = hash"
| "pickColor_loop hash (c # cs) = pickColor_loop (toInt32 (shiftLeft hash 5 - hash + uint c)) cs"

definition pickColor_index :: "jsstring \<Rightarrow> nat" where
  "pickColor_index v = nat (\<bar>pickColor_loop 0 v\<bar> mod int (length userColors))"

definition pickColor :: "jsstring \<Rightarrow> jsstring option" where
  "pickColor v =
     (let i = pickColor_index v in if i < length userColors then Some (userColors ! i) else None)"

text \<open>
  The colour assignment in the words of the specification: a 32-bit rolling hash
  \<open>hash = hash * 31 + charCode\<close>, wrapping on overflow, then the absolute value modulo the
  palette of 5 colours.
\<close>

fun rolling_hash31 :: "32 word \<Rightarrow> jsstring \<Rightarrow> 32 word" where
  "rolling_hash31 h [] = h"
| "rolling_hash31 h (c # cs) = rolling_hash31 (h * 31 + ucast c) cs"

definition color_spec :: "jsstring \<Rightarrow> jsstring" where
  "color_spec name = userColors ! nat (\<bar>sint (rolling_hash31 0 name)\<bar> mod 5)"

section \<open>Room keys: \<open>generateRoomKey\<close>\<close>

text \<open>
  \<^verbatim>\<open>
  const bytes = new Uint8Array(6)
  if (window.crypto && window.crypto.getRandomValues) {
    window.crypto.getRandomValues(bytes)
  } else {
    for (let i = 0; i < bytes.length; i += 1) {
      bytes[i] = Math.floor(Math.random() * 256)
    }
  }
  return Array.from(bytes, (value) => (value % 36).toString(36)).join('').toUpperCase()
  \<close>
  The random source is the environment's: \<open>Crypto f\<close> when \<open>window.crypto.getRandomValues\<close>
  exists, filling \<open>bytes[i]\<close> with \<open>f i\<close>; otherwise \<open>MathRandom g\<close>, where \<open>g i\<close> is the
  number \<open>Math.floor(Math.random() * 256)\<close> of round \<open>i\<close>, stored into the \<open>Uint8Array\<close>
  (a store converts modulo 256).
\<close>

datatype entropy = Crypto "nat \<Rightarrow> 8 word" | MathRandom "nat \<Rightarrow> nat"

fun randomBytes :: "entropy \<Rightarrow> 8 word list" where
  "randomBytes (Crypto f) = map f [0..<6]"
| "randomBytes (MathRandom g) = map (\<lambda>i. of_nat (g i)) [0..<6]"

text \<open>\<open>Number.prototype.toString(36)\<close> on a number below 36: one digit of \<open>0\<close>..\<open>9\<close>, \<open>a\<close>..\<open>z\<close>.\<close>

definition toString36 :: "nat \<Rightarrow> jsstring" where
  "toString36 d = (if d < 10 then [of_nat (0x30 + d)] else [of_nat (0x57 + d)])"

definition generateRoomKey :: "(jsstring \<Rightarrow> jsstring) \<Rightarrow> entropy \<Rightarrow> jsstring" where
  "generateRoomKey U e =
     toUpperCase U (concat (map (\<lambda>v. toString36 (unat v mod 36)) (randomBytes e)))"

section \<open>The database: \<open>supabase.sql\<close>\<close>

text \<open>
  A \<open>uuid\<close> is a 128-bit value. The client receives it in its textual form: 32 lower-case
  hexadecimal digits in the groups 8-4-4-4-12.
\<close>

type_synonym uuid = "128 word"

definition hexDigit :: "nat \<Rightarrow> jschar" where
  "hexDigit d = (if d < 10 then of_nat (0x30 + d) else of_nat (0x57 + d))"

definition uuid_hex :: "uuid \<Rightarrow> jsstring" where
  "uuid_hex u = map (\<lambda>i. hexDigit (unat (drop_bit (4 * (31 - i)) u AND 15))) [0..<32]"

definition uuid_text :: "uuid \<Rightarrow> jsstring" where
  "uuid_text u =
     (let h = uuid_hex u in
      take 8 h @ js ''-'' @ take 4 (drop 8 h) @ js ''-'' @ take 4 (drop 12 h) @ js ''-'' @
      take 4 (drop 16 h) @ js ''-'' @ drop 20 h)"

text \<open>
  \<^verbatim>\<open>
  create table if not exists public.rooms (
    id uuid primary key default gen_random_uuid(),
    key text unique not null,
    owner_id uuid not null references auth.users(id) on delete cascade,
    created_at timestamptz not null default now()
  );
  create table if not exists public.room_members (
    room_id uuid not null references public.rooms(id) on delete cascade,
    user_id uuid not null references auth.users(id) on delete cascade,
    role text default 'editor',
    created_at timestamptz not null default now(),
    primary key (room_id, user_id)
  );
  \<close>
  A table is the list of its rows in insertion order. \<open>now\<close> is the server's clock, which
  the environment sets; \<open>auth.users\<close> belongs to the identity provider and is not modelled.
\<close>

record room =
  r_id :: uuid
  r_key :: jsstring
  r_owner_id :: uuid
  r_created_at :: nat

record room_member =
  m_room_id :: uuid
  m_user_id :: uuid
  m_role :: "jsstring option"
  m_created_at :: nat

record db =
  rooms :: "room list"
  room_members :: "room_member list"
  now :: nat

datatype pg_error = RoomNotFound | UniqueViolation | ForeignKeyViolation | RlsViolation

text \<open>
  The \<open>message\<close> of the error object the client receives. \<open>room-not-found\<close> is the text of
  the function's \<open>raise exception\<close>; the other three are the server's own messages, of which
  the client only uses that they are not empty.
\<close>

fun error_message :: "pg_error \<Rightarrow> jsstring" where
  "error_message RoomNotFound = js ''room-not-found''"
| "error_message UniqueViolation = js ''duplicate key value violates unique constraint''"
| "error_message ForeignKeyViolation = js ''insert or update on table violates foreign key constraint''"
| "error_message RlsViolation = js ''new row violates row-level security policy''"

definition has_member :: "db \<Rightarrow> uuid \<Rightarrow> uuid \<Rightarrow> bool" where
  "has_member d rid uid = list_ex (\<lambda>m. m_room_id m = rid \<and> m_user_id m = uid) (room_members d)"

definition new_member :: "db \<Rightarrow> uuid \<Rightarrow> uuid \<Rightarrow> room_member" where
  "new_member d rid uid =
     \<lparr>m_room_id = rid, m_user_id = uid, m_role = Some (js ''editor''), m_created_at = now d\<rparr>"

text \<open>
  \<^verbatim>\<open>
  insert into public.room_members (room_id, user_id)
  values (v_room_id, auth.uid())
  on conflict do nothing;
  \<close>
  inside \<open>join_room_by_key\<close>, where \<open>v_room_id\<close> was read from \<open>rooms\<close>, so the foreign key
  holds; the function is \<open>security definer\<close>, so no row-level policy applies.
\<close>

definition insert_member_on_conflict_do_nothing :: "db \<Rightarrow> uuid \<Rightarrow> uuid \<Rightarrow> db" where
  "insert_member_on_conflict_do_nothing d rid uid =
     (if has_member d rid uid then d
      else d\<lparr>room_members := room_members d @ [new_member d rid uid]\<rparr>)"

text \<open>
  \<^verbatim>\<open>
  create or replace function public.join_room_by_key(p_key text) returns uuid
  language plpgsql security definer as $$
  declare v_room_id uuid;
  begin
    select id into v_room_id from public.rooms where key = p_key;
    if v_room_id is null then
      raise exception 'room-not-found';
    end if;
    insert into public.room_members (room_id, user_id)
    values (v_room_id, auth.uid())
    on conflict do nothing;
    return v_room_id;
  end; $$;
  \<close>
  \<open>uid\<close> is \<open>auth.uid()\<close>, the caller's user id (execution is granted to authenticated
  callers only). The result is the database after the call and the error or the room id.
\<close>

definition join_room_by_key :: "db \<Rightarrow> uuid \<Rightarrow> jsstring \<Rightarrow> db \<times> (pg_error + uuid)" where
  "join_room_by_key d uid p_key =
     (case find (\<lambda>r. r_key r = p_key) (rooms d) of
        None \<Rightarrow> (d, Inl RoomNotFound)
      | Some r \<Rightarrow> (insert_member_on_conflict_do_nothing d (r_id r) uid, Inr (r_id r)))"

text \<open>
  The client's \<open>supabase.from('rooms').insert({ key, owner_id }).select('id, key').single()\<close>,
  sent with the caller's token (\<open>uid\<close> is \<open>auth.uid()\<close>). \<open>new_id\<close> is the value that
  \<open>gen_random_uuid()\<close> draws. The policy \<open>Rooms: insert own\<close> checks
  \<open>auth.uid() = owner_id\<close>; \<open>id\<close> is the primary key and \<open>key\<close> is unique. The owner may
  read the row back (\<open>Rooms: select member\<close>).
\<close>

definition rooms_insert :: "db \<Rightarrow> uuid \<Rightarrow> uuid \<Rightarrow> jsstring \<Rightarrow> uuid \<Rightarrow> db \<times> (pg_error + room)" where
  "rooms_insert d uid new_id k owner =
     (let row = \<lparr>r_id = new_id, r_key = k, r_owner_id = owner, r_created_at = now d\<rparr> in
      if uid \<noteq> owner then (d, Inl RlsViolation)
      else if list_ex (\<lambda>r. r_id r = new_id) (rooms d) then (d, Inl UniqueViolation)
      else if list_ex (\<lambda>r. r_key r = k) (rooms d) then (d, Inl UniqueViolation)
      else (d\<lparr>rooms := rooms d @ [row]\<rparr>, Inr row))"

text \<open>
  The client's
  \<open>supabase.from('room_members').upsert({ room_id, user_id }, { onConflict: 'room_id,user_id' })\<close>:
  an \<open>insert ... on conflict (room_id, user_id) do update\<close>, sent with the caller's token.
  The policy \<open>Room members: insert self\<close> checks \<open>auth.uid() = user_id\<close>. The file defines
  select and insert policies on \<open>room_members\<close> and no update policy, and row level security
  is enabled, so the \<open>do update\<close> arm, taken when the row exists, is refused. \<open>room_id\<close>
  references \<open>rooms(id)\<close>.
\<close>

definition room_members_upsert :: "db \<Rightarrow> uuid \<Rightarrow> uuid \<Rightarrow> uuid \<Rightarrow> db \<times> (pg_error + unit)" where
  "room_members_upsert d uid rid user =
     (if uid \<noteq> user then (d, Inl RlsViolation)
      else if has_member d rid user then (d, Inl RlsViolation)
      else if \<not> list_ex (\<lambda>r. r_id r = rid) (rooms d) then (d, Inl ForeignKeyViolation)
      else (d\<lparr>room_members := room_members d @ [new_member d rid user]\<rparr>, Inr ()))"

section \<open>The address and the history\<close>

text \<open>
  A parsed address: what precedes the query (scheme, host, path), the query as the list of
  name-value pairs that \<open>URLSearchParams\<close> holds, and the fragment.
\<close>

type_synonym searchParams = "(jsstring \<times> jsstring) list"

record url =
  url_base :: jsstring
  url_searchParams :: searchParams
  url_hash :: jsstring

text \<open>
  \<open>URLSearchParams.get\<close> gives the value of the first pair with the name, or \<open>null\<close>;
  \<open>set\<close> overwrites the first pair with the name and removes the others, or appends a pair
  when there is none; \<open>delete\<close> removes every pair with the name.
\<close>

definition searchParams_get :: "jsstring \<Rightarrow> searchParams \<Rightarrow> jsstring option" where
  "searchParams_get name ps = map_option snd (find (\<lambda>p. fst p = name) ps)"

definition searchParams_delete :: "jsstring \<Rightarrow> searchParams \<Rightarrow> searchParams" where
  "searchParams_delete name ps = filter (\<lambda>p. fst p \<noteq> name) ps"

fun searchParams_set :: "jsstring \<Rightarrow> jsstring \<Rightarrow> searchParams \<Rightarrow> searchParams" where
  "searchParams_set name v [] = [(name, v)]"
| "searchParams_set name v (p # ps) =
     (if fst p = name then (name, v) # searchParams_delete name ps
      else p # searchParams_set name v ps)"

text \<open>
  The session history: the entries behind the current one, the current entry, and those
  ahead. \<open>window.location\<close> is the current entry; \<open>history.replaceState({}, '', url)\<close>
  overwrites it.
\<close>

record history =
  h_back :: "url list"
  h_current :: url
  h_forward :: "url list"

definition replaceState :: "url \<Rightarrow> history \<Rightarrow> history" where
  "replaceState u h = h\<lparr>h_current := u\<rparr>"

text \<open>
  \<^verbatim>\<open>
  const getSearchParam = (key) => new URLSearchParams(window.location.search).get(key) || ''
  const getRoomFromUrl = () => getSearchParam('room') || getSearchParam('doc')
  const getInviteFromUrl = () => getSearchParam('invite')
  \<close>
\<close>

definition getSearchParam :: "history \<Rightarrow> jsstring \<Rightarrow> jsstring" where
  "getSearchParam w k =
     (case searchParams_get k (url_searchParams (h_current w)) of None \<Rightarrow> [] | Some v \<Rightarrow> v)"

definition getRoomFromUrl :: "history \<Rightarrow> jsstring" where
  "getRoomFromUrl w =
     (if getSearchParam w (js ''room'') \<noteq> [] then getSearchParam w (js ''room'')
      else getSearchParam w (js ''doc''))"

definition getInviteFromUrl :: "history \<Rightarrow> jsstring" where
  "getInviteFromUrl w = getSearchParam w (js ''invite'')"

text \<open>
  \<^verbatim>\<open>
  const updateRoomInUrl = (roomId) => {
    const url = new URL(window.location.href)
    if (roomId) { url.searchParams.set('room', roomId) } else { url.searchParams.delete('room') }
    url.searchParams.delete('doc')
    url.searchParams.delete('invite')
    window.history.replaceState({}, '', url)
  }
  \<close>
\<close>

definition updateRoomInUrl :: "jsstring \<Rightarrow> history \<Rightarrow> history" where
  "updateRoomInUrl roomId w =
     (let url = h_current w;
          ps0 = url_searchParams url;
          ps1 = (if roomId \<noteq> [] then searchParams_set (js ''room'') roomId ps0
                 else searchParams_delete (js ''room'') ps0);
          ps2 = searchParams_delete (js ''doc'') ps1;
          ps3 = searchParams_delete (js ''invite'') ps2
      in replaceState (url\<lparr>url_searchParams := ps3\<rparr>) w)"

section \<open>The realtime session: provider, listeners, teardown\<close>

text \<open>
  The presence descriptor \<open>{ name, color }\<close> and the authenticated session of the identity
  provider, of which the application reads \<open>user.id\<close>, \<open>user.email\<close> and \<open>access_token\<close>.
\<close>

record user =
  u_name :: jsstring
  u_color :: "jsstring option"

record auth_session =
  s_user_id :: uuid
  s_email :: jsstring
  s_access_token :: jsstring

text \<open>
  The \<open>WebsocketProvider\<close> object, as far as the application touches it: the observers of
  its \<open>status\<close> event, the observers of the \<open>change\<close> event of its awareness, the
  awareness states (client id and the \<open>user\<close> field of the state, absent until published),
  and whether \<open>destroy()\<close> has released the transport. \<open>on\<close> adds a function to the set of
  observers of an event, \<open>off\<close> removes it, and an event calls the observers registered at
  that moment. The application's two callbacks are \<open>HandleStatus\<close> and \<open>HandleAwareness\<close>;
  the library's own observers do not touch the application's state.
\<close>

datatype status_listener = HandleStatus | ProviderInternal
datatype change_listener = HandleAwareness | AwarenessInternal

record provider =
  p_roomname :: jsstring
  p_token :: jsstring
  p_clientID :: nat
  p_status_observers :: "status_listener list"
  p_change_observers :: "change_listener list"
  p_states :: "(nat \<times> user option) list"
  p_destroyed :: bool

definition observer_on :: "'a \<Rightarrow> 'a list \<Rightarrow> 'a list" where
  "observer_on f fs = (if f \<in> set fs then fs else fs @ [f])"

definition observer_off :: "'a \<Rightarrow> 'a list \<Rightarrow> 'a list" where
  "observer_off f fs = removeAll f fs"

text \<open>
  \<open>new WebsocketProvider(wsUrl, roomId, doc, { params: { token } })\<close>: no observer of the
  application yet, and an awareness whose local state is the empty object.
\<close>

definition WebsocketProvider :: "jsstring \<Rightarrow> nat \<Rightarrow> jsstring \<Rightarrow> provider" where
  "WebsocketProvider room clientID tok =
     \<lparr>p_roomname = room, p_token = tok, p_clientID = clientID,
      p_status_observers = [ProviderInternal], p_change_observers = [AwarenessInternal],
      p_states = [(clientID, None)], p_destroyed = False\<rparr>"

section \<open>The application state\<close>

text \<open>
  The state variables of \<open>App\<close> that the room and session logic uses, under the names of
  the source, with \<open>supabase\<close> (whether the client is configured) and \<open>window\<close> (the
  history and address of the page).
\<close>

record app =
  supabase :: bool
  status :: jsstring
  users :: "user list"
  session :: "auth_session option"
  roomId :: jsstring
  roomKeyInput :: jsstring
  inviteInput :: jsstring
  roomError :: jsstring
  roomLoading :: bool
  inviteKey :: jsstring
  window :: history

text \<open>The initial values of \<open>useState\<close>, on entering the page at the address of \<open>w\<close>.\<close>

definition App_init :: "bool \<Rightarrow> history \<Rightarrow> app" where
  "App_init configured w =
     \<lparr>supabase = configured, status = js ''connecting'', users = [], session = None,
      roomId = getRoomFromUrl w, roomKeyInput = [], inviteInput = [], roomError = [],
      roomLoading = False, inviteKey = getInviteFromUrl w, window = w\<rparr>"

definition setSession :: "auth_session option \<Rightarrow> app \<Rightarrow> app" where
  "setSession s st = st\<lparr>session := s\<rparr>"

text \<open>\<open>a || b\<close> on strings: the empty string is the only falsy one.\<close>

definition or_else :: "jsstring \<Rightarrow> jsstring \<Rightarrow> jsstring" where
  "or_else a b = (if a \<noteq> [] then a else b)"

text \<open>\<open>const token = session?.access_token || ''\<close>\<close>

definition token :: "app \<Rightarrow> jsstring" where
  "token st = (case session st of None \<Rightarrow> [] | Some s \<Rightarrow> or_else (s_access_token s) [])"

text \<open>
  \<^verbatim>\<open>
  const provider = useMemo(() => {
    if (!token || !roomId) { return null }
    return new WebsocketProvider(wsUrl, roomId, doc, { params: { token } })
  }, [doc, roomId, wsUrl, token])
  \<close>
  \<open>clientID\<close> is the client id of the \<open>Y.Doc\<close> of the room.
\<close>

definition provider_memo :: "nat \<Rightarrow> app \<Rightarrow> provider option" where
  "provider_memo clientID st =
     (if token st = [] \<or> roomId st = [] then None
      else Some (WebsocketProvider (roomId st) clientID (token st)))"

text \<open>
  \<^verbatim>\<open>
  const handleStatus = (event) => setStatus(event.status)
  const handleAwareness = () => {
    const states = Array.from(provider.awareness.getStates().values())
    const nextUsers = states.map((state) => state.user).filter(Boolean)
    setUsers(nextUsers)
  }
  \<close>
\<close>

definition handleStatus :: "jsstring \<Rightarrow> app \<Rightarrow> app" where
  "handleStatus event_status st = st\<lparr>status := event_status\<rparr>"

definition handleAwareness :: "provider \<Rightarrow> app \<Rightarrow> app" where
  "handleAwareness p st = st\<lparr>users := List.map_filter snd (p_states p)\<rparr>"

fun call_status_listener :: "jsstring \<Rightarrow> status_listener \<Rightarrow> app \<Rightarrow> app" where
  "call_status_listener ev HandleStatus st = handleStatus ev st"
| "call_status_listener ev ProviderInternal st = st"

fun call_change_listener :: "provider \<Rightarrow> change_listener \<Rightarrow> app \<Rightarrow> app" where
  "call_change_listener p HandleAwareness st = handleAwareness p st"
| "call_change_listener p AwarenessInternal st = st"

text \<open>
  The delivery of a \<open>status\<close> event with the field \<open>status\<close>, and of a \<open>change\<close> event of
  the awareness, to the observers of a provider.
\<close>

definition emit_status :: "provider \<Rightarrow> jsstring \<Rightarrow> app \<Rightarrow> app" where
  "emit_status p ev st = fold (call_status_listener ev) (p_status_observers p) st"

definition emit_change :: "provider \<Rightarrow> app \<Rightarrow> app" where
  "emit_change p st = fold (call_change_listener p) (p_change_observers p) st"

text \<open>
  \<open>awareness.setLocalStateField('user', user)\<close> writes the field into the local state,
  unless that state is \<open>null\<close> (no entry for the own client id). The library then
  calls the \<open>change\<close> observers if the state differs from the one before; \<open>sessionEffect\<close>
  below calls them in every case, which is the same for the application's callback, since
  that recomputes the participant list from the states.
\<close>

definition setLocalStateField_user :: "user \<Rightarrow> provider \<Rightarrow> provider" where
  "setLocalStateField_user u p =
     p\<lparr>p_states := map (\<lambda>(c, s). if c = p_clientID p then (c, Some u) else (c, s)) (p_states p)\<rparr>"

text \<open>
  \<^verbatim>\<open>
  useEffect(() => {
    if (!provider) {
      setStatus('disconnected')
      setUsers([])
      return () => {}
    }
    setStatus('connecting')
    const handleStatus = ...
    provider.on('status', handleStatus)
    provider.awareness.setLocalStateField('user', user)
    const handleAwareness = ...
    provider.awareness.on('change', handleAwareness)
    handleAwareness()
    return () => {
      provider.awareness.off('change', handleAwareness)
      provider.off('status', handleStatus)
      provider.destroy()
    }
  }, [provider, user])
  \<close>
  \<open>sessionEffect\<close> is the body, giving the provider object and the state after it;
  \<open>sessionCleanup\<close> is the function the body returns.
\<close>

definition sessionEffect :: "provider option \<Rightarrow> user \<Rightarrow> app \<Rightarrow> provider option \<times> app" where
  "sessionEffect prov u st =
     (case prov of
        None \<Rightarrow> (None, st\<lparr>status := js ''disconnected'', users := []\<rparr>)
      | Some p \<Rightarrow>
          (let st1 = st\<lparr>status := js ''connecting''\<rparr>;
               p1 = p\<lparr>p_status_observers := observer_on HandleStatus (p_status_observers p)\<rparr>;
               p2 = setLocalStateField_user u p1;
               st2 = emit_change p2 st1;
               p3 = p2\<lparr>p_change_observers := observer_on HandleAwareness (p_change_observers p2)\<rparr>;
               st3 = handleAwareness p3 st2
           in (Some p3, st3)))"

definition destroy :: "provider \<Rightarrow> provider" where
  "destroy p = p\<lparr>p_destroyed := True\<rparr>"

definition sessionCleanup :: "provider \<Rightarrow> provider" where
  "sessionCleanup p =
     (let p1 = p\<lparr>p_change_observers := observer_off HandleAwareness (p_change_observers p)\<rparr>;
          p2 = p1\<lparr>p_status_observers := observer_off HandleStatus (p_status_observers p1)\<rparr>
      in destroy p2)"

text \<open>
  The template literal \<open>`User ${fallbackId}`\<close> writes the number in decimal digits.
\<close>

fun decimal :: "nat \<Rightarrow> jsstring" where
  "decimal n =
     (if n < 10 then [of_nat (0x30 + n)] else decimal (n div 10) @ [of_nat (0x30 + n mod 10)])"

declare decimal.simps [simp del]

text \<open>
  \<^verbatim>\<open>
  const user = useMemo(() => {
    const fallbackId = Math.floor(Math.random() * 900) + 100
    const label = session?.user?.email || `User ${fallbackId}`
    return { name: label, color: pickColor(label) }
  }, [session])
  \<close>
  \<open>rnd\<close> is the number \<open>Math.floor(Math.random() * 900)\<close> of this computation.
\<close>

definition user_memo :: "nat \<Rightarrow> auth_session option \<Rightarrow> user" where
  "user_memo rnd ses =
     (let fallbackId = rnd + 100;
          label = or_else (case ses of None \<Rightarrow> [] | Some s \<Rightarrow> s_email s)
                    (js ''User '' @ decimal fallbackId)
      in \<lparr>u_name = label, u_color = pickColor label\<rparr>)"

text \<open>
  What follows when \<open>getSession\<close> or the subscription of \<open>onAuthStateChange\<close> stores another
  session object with \<open>setSession\<close>. \<open>user\<close> is computed again, its dependency \<open>session\<close>
  being another object. \<open>provider\<close> is computed again only if \<open>token\<close> differs (\<open>roomId\<close> and
  \<open>doc\<close> are as before, and strings are compared by value); otherwise the memo gives the
  same provider object. The session effect has the dependencies \<open>[provider, user]\<close>, so
  the cleanup that its previous run returned is called, and then its body, with the
  provider of this render. \<open>prov\<close> is the provider object as the previous run left it.
\<close>

definition sessionChange ::
  "nat \<Rightarrow> nat \<Rightarrow> auth_session option \<Rightarrow> provider option \<times> app \<Rightarrow> provider option \<times> app" where
  "sessionChange clientID rnd nextSession w =
     (case w of (prov, st) \<Rightarrow>
       (let st1 = setSession nextSession st;
            u = user_memo rnd nextSession;
            cleaned = map_option sessionCleanup prov
        in if token st1 = token st then sessionEffect cleaned u st1
           else sessionEffect (provider_memo clientID st1) u st1))"

section \<open>Room directory: create and join\<close>

text \<open>
  \<^verbatim>\<open>
  const handleCreateRoom = async () => {
    if (!supabase || !session) { return }
    setRoomError('')
    setRoomLoading(true)
    const newKey = generateRoomKey()
    const { data: room, error } = await supabase.from('rooms')
      .insert({ key: newKey, owner_id: session.user.id }).select('id, key').single()
    if (error || !room) {
      setRoomError(error?.message || 'Failed to create room')
      setRoomLoading(false)
      return
    }
    const { error: memberError } = await supabase.from('room_members')
      .upsert({ room_id: room.id, user_id: session.user.id }, { onConflict: 'room_id,user_id' })
    if (memberError) {
      setRoomError(memberError.message)
      setRoomLoading(false)
      return
    }
    setRoomId(room.id)
    setInviteKey('')
    updateRoomInUrl(room.id)
    setRoomLoading(false)
  }
  \<close>
  The handlers take the database and the application state and give both back, as they are
  once the handler's requests have resolved.
\<close>

definition handleCreateRoom ::
  "(jsstring \<Rightarrow> jsstring) \<Rightarrow> entropy \<Rightarrow> uuid \<Rightarrow> db \<times> app \<Rightarrow> db \<times> app" where
  "handleCreateRoom U e new_id w =
     (case w of (d, st) \<Rightarrow>
       (case session st of
          None \<Rightarrow> (d, st)
        | Some s \<Rightarrow>
            if \<not> supabase st then (d, st)
            else
              (let st1 = st\<lparr>roomError := [], roomLoading := True\<rparr>;
                   newKey = generateRoomKey U e
               in (case rooms_insert d (s_user_id s) new_id newKey (s_user_id s) of
                     (d1, Inl err) \<Rightarrow>
                       (d1, st1\<lparr>roomError :=
                                  or_else (error_message err) (js ''Failed to create room''),
                                roomLoading := False\<rparr>)
                   | (d1, Inr room) \<Rightarrow>
                       (case room_members_upsert d1 (s_user_id s) (r_id room) (s_user_id s) of
                          (d2, Inl memberError) \<Rightarrow>
                            (d2, st1\<lparr>roomError := error_message memberError,
                                     roomLoading := False\<rparr>)
                        | (d2, Inr _) \<Rightarrow>
                            (d2, st1\<lparr>roomId := uuid_text (r_id room), inviteKey := [],
                                     window := updateRoomInUrl (uuid_text (r_id room)) (window st1),
                                     roomLoading := False\<rparr>))))))"

text \<open>
  \<^verbatim>\<open>
  const joinRoomByKey = async (keyValue) => {
    if (!supabase || !session) { return }
    const trimmedKey = keyValue.trim().toUpperCase()
    if (!trimmedKey) {
      setRoomError('Enter a room key')
      return
    }
    setRoomError('')
    setRoomLoading(true)
    const { data: roomIdFromRpc, error } = await supabase
      .rpc('join_room_by_key', { p_key: trimmedKey })
    if (error || !roomIdFromRpc) {
      setRoomError(error?.message || 'Room not found')
      setRoomLoading(false)
      return
    }
    setRoomId(roomIdFromRpc)
    setRoomKeyInput('')
    setInviteInput('')
    setInviteKey('')
    updateRoomInUrl(roomIdFromRpc)
    setRoomLoading(false)
  }
  \<close>
  \<open>joinRoomByKey_rpc\<close> is the part after the normalisation: the call of the function
  \<open>join_room_by_key\<close> with \<open>p_key\<close>, as the user of the session, and what follows it.
\<close>

definition joinRoomByKey_rpc :: "auth_session \<Rightarrow> jsstring \<Rightarrow> db \<times> app \<Rightarrow> db \<times> app" where
  "joinRoomByKey_rpc s p_key w =
     (case w of (d, st) \<Rightarrow>
       (let st1 = st\<lparr>roomError := [], roomLoading := True\<rparr> in
         (case join_room_by_key d (s_user_id s) p_key of
            (d1, Inl err) \<Rightarrow>
              (d1, st1\<lparr>roomError := or_else (error_message err) (js ''Room not found''),
                       roomLoading := False\<rparr>)
          | (d1, Inr rid) \<Rightarrow>
              (let roomIdFromRpc = uuid_text rid in
               if roomIdFromRpc = [] then
                 (d1, st1\<lparr>roomError := js ''Room not found'', roomLoading := False\<rparr>)
               else
                 (d1, st1\<lparr>roomId := roomIdFromRpc, roomKeyInput := [], inviteInput := [],
                          inviteKey := [],
                          window := updateRoomInUrl roomIdFromRpc (window st1),
                          roomLoading := False\<rparr>)))))"

definition joinRoomByKey :: "(jsstring \<Rightarrow> jsstring) \<Rightarrow> jsstring \<Rightarrow> db \<times> app \<Rightarrow> db \<times> app" where
  "joinRoomByKey U keyValue w =
     (case w of (d, st) \<Rightarrow>
       (case session st of
          None \<Rightarrow> (d, st)
        | Some s \<Rightarrow>
            if \<not> supabase st then (d, st)
            else
              (let trimmedKey = toUpperCase U (trim keyValue) in
               if trimmedKey = [] then (d, st\<lparr>roomError := js ''Enter a room key''\<rparr>)
               else joinRoomByKey_rpc s trimmedKey (d, st))))"

text \<open>
  \<^verbatim>\<open>
  const handleJoinByKey = async (event) => {
    event.preventDefault()
    await joinRoomByKey(roomKeyInput)
  }
  const handleJoinByInvite = async (event) => {
    event.preventDefault()
    const trimmed = inviteInput.trim()
    if (!trimmed) {
      setRoomError('Enter an invite link or key')
      return
    }
    let keyValue = trimmed
    try {
      const url = new URL(trimmed)
      keyValue = url.searchParams.get('invite') || trimmed
    } catch {
      keyValue = trimmed
    }
    await joinRoomByKey(keyValue)
  }
  \<close>
  The URL parser is the browser's: \<open>parseURL\<close> gives the parsed address, or \<open>None\<close> where
  \<open>new URL\<close> throws. It is a parameter of the handler.
\<close>

definition handleJoinByKey :: "(jsstring \<Rightarrow> jsstring) \<Rightarrow> db \<times> app \<Rightarrow> db \<times> app" where
  "handleJoinByKey U w = joinRoomByKey U (roomKeyInput (snd w)) w"

definition inviteKeyValue :: "(jsstring \<Rightarrow> url option) \<Rightarrow> jsstring \<Rightarrow> jsstring" where
  "inviteKeyValue parseURL trimmed =
     (case parseURL trimmed of
        None \<Rightarrow> trimmed
      | Some url \<Rightarrow>
          (case searchParams_get (js ''invite'') (url_searchParams url) of
             None \<Rightarrow> trimmed
           | Some v \<Rightarrow> or_else v trimmed))"

definition handleJoinByInvite ::
  "(jsstring \<Rightarrow> jsstring) \<Rightarrow> (jsstring \<Rightarrow> url option) \<Rightarrow> db \<times> app \<Rightarrow> db \<times> app" where
  "handleJoinByInvite U parseURL w =
     (case w of (d, st) \<Rightarrow>
       (let trimmed = trim (inviteInput st) in
        if trimmed = [] then (d, st\<lparr>roomError := js ''Enter an invite link or key''\<rparr>)
        else joinRoomByKey U (inviteKeyValue parseURL trimmed) (d, st)))"

text \<open>
  \<^verbatim>\<open>
  useEffect(() => {
    if (!inviteKey || !session) { return }
    joinRoomByKey(inviteKey)
  }, [inviteKey, session])
  \<close>
\<close>

definition inviteEffect :: "(jsstring \<Rightarrow> jsstring) \<Rightarrow> db \<times> app \<Rightarrow> db \<times> app" where
  "inviteEffect U w =
     (if inviteKey (snd w) = [] \<or> session (snd w) = None then w
      else joinRoomByKey U (inviteKey (snd w)) w)"

text \<open>
  \<^verbatim>\<open>
  const handleSignOut = async () => {
    if (!supabase) { return }
    await supabase.auth.signOut()
    setRoomId(''); setRoomKeyInput(''); setInviteInput(''); setRoomError(''); setInviteKey('')
    updateRoomInUrl('')
  }
  \<close>
  Signing out makes the identity provider report the session \<open>null\<close>, which the
  subscription of \<open>onAuthStateChange\<close> stores with \<open>setSession\<close>.
\<close>

definition handleSignOut :: "app \<Rightarrow> app" where
  "handleSignOut st =
     (if \<not> supabase st then st
      else (setSession None st)\<lparr>roomId := [], roomKeyInput := [], inviteInput := [],
              roomError := [], inviteKey := [], window := updateRoomInUrl [] (window st)\<rparr>)"

section \<open>Vocabulary of the specification\<close>

text \<open>
  The upper-case base-36 alphabet \<open>0\<close>..\<open>9\<close>, \<open>A\<close>..\<open>Z\<close>, and the digit of that alphabet
  with a given value.
\<close>

definition isBase36Upper :: "jschar \<Rightarrow> bool" where
  "isBase36Upper c \<longleftrightarrow> (0x30 \<le> c \<and> c \<le> 0x39) \<or> (0x41 \<le> c \<and> c \<le> 0x5A)"

definition upperDigit36 :: "nat \<Rightarrow> jschar" where
  "upperDigit36 d = (if d < 10 then of_nat (0x30 + d) else of_nat (0x37 + d))"

text \<open>
  A key written in another letter case: position by position the same character, or the
  lower-case letter of an upper-case one.
\<close>

definition asciiLower :: "jschar \<Rightarrow> jschar" where
  "asciiLower c = (if 0x41 \<le> c \<and> c \<le> 0x5A then c + 0x20 else c)"

definition caseVariant :: "jsstring \<Rightarrow> jsstring \<Rightarrow> bool" where
  "caseVariant k v \<longleftrightarrow> list_all2 (\<lambda>a b. b = a \<or> b = asciiLower a) k v"

text \<open>The parameters of an address other than \<open>room\<close>, \<open>doc\<close> and \<open>invite\<close>.\<close>

definition isOtherParam :: "jsstring \<times> jsstring \<Rightarrow> bool" where
  "isOtherParam p \<longleftrightarrow> fst p \<noteq> js ''room'' \<and> fst p \<noteq> js ''doc'' \<and> fst p \<noteq> js ''invite''"

text \<open>
  Between two application states, the room id and the address are both as before, or the
  address is the one that \<open>updateRoomInUrl\<close> makes for the new room id.
\<close>

definition address_follows_room :: "app \<Rightarrow> app \<Rightarrow> bool" where
  "address_follows_room st st' \<longleftrightarrow>
     (roomId st' = roomId st \<and> window st' = window st) \<or>
     window st' = updateRoomInUrl (roomId st') (window st)"

text \<open>
  At most one membership row for each pair of room id and user id; and every membership
  row refers to a room of the table (the foreign key of \<open>room_id\<close>).
\<close>

definition members_unique :: "db \<Rightarrow> bool" where
  "members_unique d \<longleftrightarrow> distinct (map (\<lambda>m. (m_room_id m, m_user_id m)) (room_members d))"

definition members_reference_rooms :: "db \<Rightarrow> bool" where
  "members_reference_rooms d \<longleftrightarrow>
     list_all (\<lambda>m. list_ex (\<lambda>r. r_id r = m_room_id m) (rooms d)) (room_members d)"

text \<open>
  The operations of the room directory as different clients issue them on the shared
  database: a client is its application state, whose session names the principal; a
  creation comes with the random bytes of its key and the id that the database draws.
\<close>

datatype operation = CreateRoom app entropy uuid | JoinByKey app jsstring

fun exec_op :: "(jsstring \<Rightarrow> jsstring) \<Rightarrow> operation \<Rightarrow> db \<Rightarrow> db" where
  "exec_op U (CreateRoom st e new_id) d = fst (handleCreateRoom U e new_id (d, st))"
| "exec_op U (JoinByKey st k) d = fst (joinRoomByKey U k (d, st))"

definition run_ops :: "(jsstring \<Rightarrow> jsstring) \<Rightarrow> operation list \<Rightarrow> db \<Rightarrow> db" where
  "run_ops U ops d = fold (exec_op U) ops d"

definition empty_db :: db where
  "empty_db = \<lparr>rooms = [], room_members = [], now = 0\<rparr>"

subsection \<open>Concrete inputs\<close>

text \<open>
  Two sessions, a presence descriptor, a page whose address has given parameters, two
  signed-in clients on a page without parameters, and a database with one room, owned
  by the first user.
\<close>

definition example_session :: auth_session where
  "example_session = \<lparr>s_user_id = 1, s_email = js ''u1@example.com'', s_access_token = js ''tok''\<rparr>"

definition example_session2 :: auth_session where
  "example_session2 = \<lparr>s_user_id = 2, s_email = js ''u2@example.com'', s_access_token = js ''tok2''\<rparr>"

definition example_user :: user where
  "example_user = \<lparr>u_name = js ''u1@example.com'', u_color = pickColor (js ''u1@example.com'')\<rparr>"

definition example_window :: "searchParams \<Rightarrow> history" where
  "example_window ps =
     \<lparr>h_back = [], h_current = \<lparr>url_base = js ''https://app.example/'', url_searchParams = ps,
        url_hash = []\<rparr>, h_forward = []\<rparr>"

definition client1 :: app where
  "client1 = setSession (Some example_session) (App_init True (example_window []))"

definition client2 :: app where
  "client2 = setSession (Some example_session2) (App_init True (example_window []))"

definition example_db :: db where
  "example_db =
     \<lparr>rooms = [\<lparr>r_id = 0x77, r_key = js ''8K2A1F'', r_owner_id = 1, r_created_at = 3\<rparr>],
      room_members = [\<lparr>m_room_id = 0x77, m_user_id = 1, m_role = Some (js ''editor''),
                       m_created_at = 3\<rparr>],
      now = 5\<rparr>"

text \<open>
  The browser's URL parser on the texts used below: two addresses with an \<open>invite\<close>
  parameter, one of them with an empty value; the other texts used are not absolute URLs,
  and \<open>new URL\<close> throws on them.
\<close>

definition example_parseURL :: "jsstring \<Rightarrow> url option" where
  "example_parseURL t =
     (if t = js ''https://app.example/?invite=8k2a1f'' then
        Some \<lparr>url_base = js ''https://app.example/'',
              url_searchParams = [(js ''invite'', js ''8k2a1f'')], url_hash = []\<rparr>
      else if t = js ''https://app.example/?invite='' then
        Some \<lparr>url_base = js ''https://app.example/'',
              url_searchParams = [(js ''invite'', [])], url_hash = []\<rparr>
      else None)"

text \<open>
  An upper-casing of the strings that hold a non-ASCII code unit; no string used below
  holds one.
\<close>

definition example_upper :: "jsstring \<Rightarrow> jsstring" where
  "example_upper s = s"

section \<open>The colour hash\<close>

lemma toInt32_sint: "toInt32 x = sint (word_of_int x :: 32 word)"
proof -
  define m where "m = x mod 4294967296"
  have m: "0 \<le> m" "m < 4294967296" by (simp_all add: m_def)
  have "sint (word_of_int x :: 32 word) = signed_take_bit 31 x"
    by (simp add: sint_sbintrunc')
  also have "\<dots> = (x + 2147483648) mod 4294967296 - 2147483648"
    by (simp add: signed_take_bit_eq_take_bit_shift take_bit_eq_mod)
  also have "(x + 2147483648) mod 4294967296 = (m + 2147483648) mod 4294967296"
    unfolding m_def by (simp add: mod_add_left_eq)
  also have "(m + 2147483648) mod 4294967296 - 2147483648 =
      (if 2147483648 \<le> m then m - 4294967296 else m)"
  proof (cases "2147483648 \<le> m")
    case True
    have e: "m + 2147483648 = (m - 2147483648) + 1 * 4294967296"
      by arith
    have "(m + 2147483648) mod 4294967296 = (m - 2147483648) mod 4294967296"
      unfolding e by (simp only: mod_mult_self1)
    also have "\<dots> = m - 2147483648"
      using m True by (intro mod_pos_pos_trivial) simp_all
    finally show ?thesis using True by simp
  next
    case False
    then have "(m + 2147483648) mod 4294967296 = m + 2147483648"
      using m by (intro mod_pos_pos_trivial) simp_all
    then show ?thesis using False by simp
  qed
  finally show ?thesis
    by (simp add: toInt32_def m_def Let_def)
qed

lemma word_of_int_toInt32: "(word_of_int (toInt32 x) :: 32 word) = word_of_int x"
  by (simp add: toInt32_sint)

lemma shiftLeft_word: "(word_of_int (shiftLeft x 5) :: 32 word) = word_of_int x * 32"
  unfolding shiftLeft_def word_of_int_toInt32
  by (simp add: toInt32_sint wi_hom_syms)

lemma times31: "(h :: 32 word) * 32 - h + x = h * 31 + x"
  by (simp add: algebra_simps)

lemma shift_minus_is_times31:
  "toInt32 (shiftLeft hash 5 - hash + c) = toInt32 (hash * 31 + c)"
proof -
  have "(word_of_int (shiftLeft hash 5 - hash + c) :: 32 word)
        = word_of_int (shiftLeft hash 5) - word_of_int hash + word_of_int c"
    by (simp only: of_int_add of_int_diff)
  also have "\<dots> = word_of_int hash * 31 + word_of_int c"
    by (simp only: shiftLeft_word times31)
  also have "\<dots> = word_of_int (hash * 31 + c)"
    by simp
  finally show ?thesis by (simp only: toInt32_sint)
qed

lemma pickColor_step:
  "toInt32 (shiftLeft (sint h) 5 - sint h + uint c) = sint (h * 31 + ucast c :: 32 word)"
proof -
  have "toInt32 (shiftLeft (sint h) 5 - sint h + uint c) = toInt32 (sint h * 31 + uint c)"
    by (rule shift_minus_is_times31)
  also have "\<dots> = sint (word_of_int (sint h * 31 + uint c) :: 32 word)"
    by (rule toInt32_sint)
  also have "(word_of_int (sint h * 31 + uint c) :: 32 word) = h * 31 + ucast c"
    by simp
  finally show ?thesis .
qed

lemma pickColor_loop_refines:
  "pickColor_loop (sint h) cs = sint (rolling_hash31 h cs)"
proof (induction cs arbitrary: h)
  case Nil
  show ?case by simp
next
  case (Cons c cs)
  show ?case by (simp only: pickColor_loop.simps rolling_hash31.simps pickColor_step Cons.IH)
qed

lemma pickColor_hash: "pickColor_loop 0 v = sint (rolling_hash31 0 v)"
  using pickColor_loop_refines [of 0 v] by simp

lemma pickColor_index_bound: "pickColor_index v < length userColors"
  by (simp add: pickColor_index_def userColors_def)

lemma pickColor_Some: "pickColor v = Some (userColors ! pickColor_index v)"
  using pickColor_index_bound [of v] by (simp add: pickColor_def Let_def)

lemma pickColor_in_palette: "pickColor v \<in> Some ` set userColors"
  unfolding pickColor_Some using pickColor_index_bound [of v] by (simp only: image_eqI nth_mem)

lemma pickColor_empty: "pickColor [] = Some (userColors ! 0)"
  by (simp add: pickColor_def pickColor_index_def userColors_def)

lemma pickColor_eq_spec: "pickColor v = Some (color_spec v)"
  by (simp add: pickColor_Some color_spec_def pickColor_index_def pickColor_hash userColors_def)

section \<open>Generated keys and the normalisation of keys\<close>

lemma unat_of_nat16: "n < 65536 \<Longrightarrow> unat (of_nat n :: 16 word) = n"
  by (simp add: unat_of_nat)

lemma toString36_ascii: "d < 36 \<Longrightarrow> list_all isAscii (toString36 d)"
  by (simp add: toString36_def isAscii_def word_less_nat_alt unat_of_nat16 del: of_nat_add)

lemma asciiUpper_of_nat:
  "n < 65536 \<Longrightarrow>
   asciiUpper (of_nat n) = (if 97 \<le> n \<and> n \<le> 122 then of_nat (n - 32) else of_nat n)"
  by (simp add: asciiUpper_def word_le_nat_alt unat_of_nat16)

lemma toString36_upper: "d < 36 \<Longrightarrow> map asciiUpper (toString36 d) = [upperDigit36 d]"
  by (simp add: toString36_def upperDigit36_def asciiUpper_of_nat del: of_nat_add)

lemma upperDigit36_alphabet: "d < 36 \<Longrightarrow> isBase36Upper (upperDigit36 d)"
  by (simp add: isBase36Upper_def upperDigit36_def word_le_nat_alt unat_of_nat16 del: of_nat_add)

lemma isBase36Upper_ascii: "isBase36Upper c \<Longrightarrow> isAscii c"
  by (auto simp: isBase36Upper_def isAscii_def word_le_nat_alt word_less_nat_alt)

lemma isBase36Upper_not_space: "isBase36Upper c \<Longrightarrow> \<not> isWhiteSpace c"
  by (auto simp: isBase36Upper_def isWhiteSpace_def word_le_nat_alt)

lemma isBase36Upper_fix: "isBase36Upper c \<Longrightarrow> asciiUpper c = c"
  by (auto simp: isBase36Upper_def asciiUpper_def word_le_nat_alt)

lemma upper_concat_toString36:
  "list_all (\<lambda>d. d < 36) ds \<Longrightarrow>
     list_all isAscii (concat (map toString36 ds)) \<and>
     map asciiUpper (concat (map toString36 ds)) = map upperDigit36 ds"
proof (induction ds)
  case Nil
  show ?case by simp
next
  case (Cons d ds)
  then have d: "d < 36" and ds: "list_all (\<lambda>d. d < 36) ds" by simp_all
  from Cons.IH [OF ds] toString36_ascii [OF d] toString36_upper [OF d]
  show ?case by simp
qed

lemma length_randomBytes: "length (randomBytes e) = 6"
  by (cases e) simp_all

lemma generateRoomKey_digits:
  "generateRoomKey U e = map (\<lambda>v. upperDigit36 (unat v mod 36)) (randomBytes e)"
proof -
  let ?ds = "map (\<lambda>v. unat v mod 36) (randomBytes e)"
  have "list_all (\<lambda>d. d < 36) ?ds" by (simp add: list_all_iff)
  from upper_concat_toString36 [OF this]
  show ?thesis by (simp add: generateRoomKey_def toUpperCase_def comp_def)
qed

lemma generateRoomKey_length: "length (generateRoomKey U e) = 6"
  by (simp add: generateRoomKey_digits length_randomBytes)

lemma generateRoomKey_alphabet: "list_all isBase36Upper (generateRoomKey U e)"
  by (simp add: generateRoomKey_digits list_all_iff upperDigit36_alphabet)

lemma dropWhile_all: "list_all P xs \<Longrightarrow> dropWhile P (xs @ ys) = dropWhile P ys"
  by (induction xs) simp_all

lemma dropWhile_none:
  "xs \<noteq> [] \<Longrightarrow> list_all (\<lambda>x. \<not> P x) xs \<Longrightarrow> dropWhile P (xs @ ys) = xs @ ys"
  by (cases xs) simp_all

lemma dropWhile_rev_none: "list_all (\<lambda>x. \<not> P x) xs \<Longrightarrow> dropWhile P (rev xs) = rev xs"
  by (cases xs rule: rev_cases) simp_all

lemma trim_surrounded:
  assumes "list_all isWhiteSpace pre" and "list_all isWhiteSpace post"
    and "list_all (\<lambda>c. \<not> isWhiteSpace c) v"
  shows "trim (pre @ v @ post) = v"
proof (cases "v = []")
  case True
  have "dropWhile isWhiteSpace ((pre @ post) @ []) = dropWhile isWhiteSpace []"
    by (rule dropWhile_all) (use assms(1,2) in simp)
  then have e: "dropWhile isWhiteSpace (pre @ post) = []"
    by simp
  show ?thesis unfolding trim_def True append_Nil e by simp
next
  case False
  have "dropWhile isWhiteSpace (pre @ v @ post) = v @ post"
    using assms(1,3) False by (simp add: dropWhile_all dropWhile_none)
  moreover have "dropWhile isWhiteSpace (rev post @ rev v) = rev v"
    using assms(2,3) dropWhile_all [of isWhiteSpace "rev post" "rev v"]
    by (simp add: dropWhile_rev_none)
  ultimately show ?thesis by (simp add: trim_def)
qed

lemma trim_id: "list_all (\<lambda>c. \<not> isWhiteSpace c) v \<Longrightarrow> trim v = v"
  using trim_surrounded [of "[]" "[]" v] by simp

lemma toUpperCase_fix: "list_all isBase36Upper s \<Longrightarrow> toUpperCase U s = s"
  by (simp add: toUpperCase_def list_all_iff isBase36Upper_ascii isBase36Upper_fix map_idI)

lemma not_space_of_alphabet:
  "list_all isBase36Upper s \<Longrightarrow> list_all (\<lambda>c. \<not> isWhiteSpace c) s"
  by (simp add: list_all_iff isBase36Upper_not_space)

lemma normalize_generated: "toUpperCase U (trim (generateRoomKey U e)) = generateRoomKey U e"
  by (simp add: trim_id toUpperCase_fix not_space_of_alphabet generateRoomKey_alphabet)

section \<open>The colour function and the generated keys against the specification\<close>

text \<open>
  C5. The colour function is the reference definition: the loop of \<open>pickColor\<close> computes
  the 32-bit rolling hash \<open>hash * 31 + charCode\<close> with wrap-around, read as a signed
  number; the colour is the palette entry at the absolute value of the hash modulo 5; and
  one step \<open>(hash << 5) - hash + c\<close> followed by \<open>|0\<close> is \<open>hash * 31 + c\<close> modulo \<open>2 ^ 32\<close>.
  \<open>pickColor\<close> reads nothing but its argument, so equal names give equal colours.
\<close>

theorem pickColor_is_rolling_hash_color:
  "pickColor name = Some (color_spec name) \<and>
   pickColor_loop 0 name = sint (rolling_hash31 0 name) \<and>
   toInt32 (shiftLeft hash 5 - hash + c) = toInt32 (hash * 31 + c)"
  by (simp only: pickColor_eq_spec pickColor_hash shift_minus_is_times31)

theorem pickColor_is_rolling_hash_color_witness:
  "pickColor (js ''alice@example.com'') = Some (js ''#2f855a'') \<and>
   color_spec (js ''alice@example.com'') = js ''#2f855a'' \<and>
   pickColor_loop 0 (js ''alice@example.com'') = 2145772861 \<and>
   sint (rolling_hash31 0 (js ''alice@example.com'')) = 2145772861 \<and>
   toInt32 (shiftLeft 2147483647 5 - 2147483647 + 65) = toInt32 (2147483647 * 31 + 65)"
proof -
  have e: "pickColor (js ''alice@example.com'') = Some (js ''#2f855a'')"
    by code_simp
  have h: "pickColor_loop 0 (js ''alice@example.com'') = 2145772861"
    by code_simp
  from pickColor_is_rolling_hash_color [of "js ''alice@example.com''" 2147483647 65] e h
  show ?thesis by simp
qed

text \<open>
  C10. \<open>pickColor\<close> is total: the index \<open>Math.abs(hash) % 5\<close> is within the palette of five
  colours, the result is one of them, and the empty name gets the first colour. A
  generated key has six characters of the upper-case base-36 alphabet, and trimming and
  upper-casing leave it as it is.
\<close>

theorem pickColor_total_generateRoomKey_normal:
  "pickColor v \<in> Some ` set userColors \<and>
   pickColor_index v < length userColors \<and> length userColors = 5 \<and>
   pickColor [] = Some (userColors ! 0) \<and>
   length (generateRoomKey U e) = 6 \<and>
   list_all isBase36Upper (generateRoomKey U e) \<and>
   toUpperCase U (trim (generateRoomKey U e)) = generateRoomKey U e"
  by (intro conjI pickColor_in_palette pickColor_index_bound pickColor_empty
      generateRoomKey_length generateRoomKey_alphabet normalize_generated)
    (simp add: userColors_def)

theorem pickColor_total_generateRoomKey_normal_witness:
  "pickColor (js ''alice@example.com'') \<in> Some ` set userColors \<and>
   pickColor [] = Some (js ''#2b6cb0'') \<and>
   generateRoomKey (\<lambda>s. s) (Crypto (\<lambda>i. of_nat (i * 47 + 200))) = js ''KV2DOZ'' \<and>
   toUpperCase (\<lambda>s. s) (trim (js ''KV2DOZ'')) = js ''KV2DOZ''"
proof -
  have k: "generateRoomKey (\<lambda>s. s) (Crypto (\<lambda>i. of_nat (i * 47 + 200))) = js ''KV2DOZ''"
    by code_simp
  have c: "userColors ! 0 = js ''#2b6cb0''"
    by (simp add: userColors_def)
  from pickColor_total_generateRoomKey_normal
    [of "js ''alice@example.com''" "\<lambda>s. s" "Crypto (\<lambda>i. of_nat (i * 47 + 200))"]
  show ?thesis unfolding k c by simp
qed

section \<open>The session effect and its teardown\<close>

lemma fold_status_internal:
  "HandleStatus \<notin> set fs \<Longrightarrow> fold (call_status_listener ev) fs st = st"
proof (induction fs)
  case Nil
  show ?case by simp
next
  case (Cons f fs)
  then show ?case by (cases f) simp_all
qed

lemma fold_change_internal:
  "HandleAwareness \<notin> set fs \<Longrightarrow> fold (call_change_listener p) fs st = st"
proof (induction fs)
  case Nil
  show ?case by simp
next
  case (Cons f fs)
  then show ?case by (cases f) simp_all
qed

lemma sessionCleanup_observers:
  "HandleStatus \<notin> set (p_status_observers (sessionCleanup p))"
  "HandleAwareness \<notin> set (p_change_observers (sessionCleanup p))"
  by (simp_all add: sessionCleanup_def destroy_def observer_off_def Let_def)

text \<open>
  C6. When the token is empty or no room is selected, the memo constructs no provider,
  and the session effect leaves no provider, reports the status \<open>disconnected\<close> and
  exposes an empty participant list.
\<close>

theorem no_session_without_token_or_room:
  assumes "token st = [] \<or> roomId st = []"
  shows "provider_memo clientID st = None \<and>
         fst (sessionEffect (provider_memo clientID st) u st) = None \<and>
         status (snd (sessionEffect (provider_memo clientID st) u st)) = js ''disconnected'' \<and>
         users (snd (sessionEffect (provider_memo clientID st) u st)) = []"
proof -
  from assms have "provider_memo clientID st = None"
    by (auto simp: provider_memo_def)
  then show ?thesis by (simp add: sessionEffect_def)
qed

theorem no_session_without_token_or_room_witness:
  "token (App_init True (example_window [(js ''room'', js ''r1'')])) = [] \<and>
   roomId (App_init True (example_window [(js ''room'', js ''r1'')])) = js ''r1'' \<and>
   provider_memo 7 (App_init True (example_window [(js ''room'', js ''r1'')])) = None \<and>
   status (snd (sessionEffect (provider_memo 7 (App_init True (example_window [(js ''room'', js ''r1'')])))
       example_user (App_init True (example_window [(js ''room'', js ''r1'')])))) = js ''disconnected'' \<and>
   users (snd (sessionEffect (provider_memo 7 (App_init True (example_window [(js ''room'', js ''r1'')])))
       example_user (App_init True (example_window [(js ''room'', js ''r1'')])))) = []"
proof -
  have t: "token (App_init True (example_window [(js ''room'', js ''r1'')])) = []"
    by (simp add: token_def App_init_def)
  have r: "roomId (App_init True (example_window [(js ''room'', js ''r1'')])) = js ''r1''"
    by (simp add: App_init_def getRoomFromUrl_def getSearchParam_def searchParams_get_def
        example_window_def js_def)
  note inst = no_session_without_token_or_room [OF disjI1 [OF t], of 7 example_user]
  show ?thesis using t r inst by blast
qed

text \<open>
  Once the cleanup of the session effect has run on a provider, and as long as the effect
  has not run again on it, a \<open>status\<close> event or an awareness \<open>change\<close> event delivered to
  that provider, whatever the awareness states are by then, leaves the application state
  as it is; the transport is released.
\<close>

theorem no_callback_after_teardown:
  "emit_status ((sessionCleanup p)\<lparr>p_states := states\<rparr>) ev st = st \<and>
   emit_change ((sessionCleanup p)\<lparr>p_states := states\<rparr>) st = st \<and>
   p_destroyed (sessionCleanup p)"
  by (simp add: emit_status_def emit_change_def fold_status_internal fold_change_internal
      sessionCleanup_observers)
    (simp add: sessionCleanup_def destroy_def Let_def)

theorem no_callback_after_teardown_witness:
  "(let st0 = setSession (Some example_session) (App_init True (example_window [(js ''room'', js ''r1'')]));
        (prov, st1) = sessionEffect (provider_memo 7 st0) example_user st0
    in case prov of
         None \<Rightarrow> False
       | Some p \<Rightarrow>
           status (emit_status p (js ''connected'') st1) = js ''connected'' \<and>
           users st1 = [example_user] \<and>
           users (emit_change (p\<lparr>p_states := []\<rparr>) st1) = [] \<and>
           emit_status ((sessionCleanup p)\<lparr>p_states := []\<rparr>) (js ''connected'') st1 = st1 \<and>
           emit_change ((sessionCleanup p)\<lparr>p_states := []\<rparr>) st1 = st1)"
proof -
  have "\<And>p st1. emit_status ((sessionCleanup p)\<lparr>p_states := []\<rparr>) (js ''connected'') st1 = st1 \<and>
       emit_change ((sessionCleanup p)\<lparr>p_states := []\<rparr>) st1 = st1"
    using no_callback_after_teardown by blast
  then show ?thesis
    by (simp add: Let_def split_def)
      (simp add: sessionEffect_def provider_memo_def token_def setSession_def App_init_def
        example_session_def or_else_def WebsocketProvider_def observer_on_def
        setLocalStateField_user_def emit_change_def emit_status_def handleAwareness_def
        handleStatus_def List.map_filter_def getRoomFromUrl_def getSearchParam_def
        searchParams_get_def example_window_def js_def Let_def)
qed

text \<open>
  The effect run again on a provider that its cleanup has torn down: both callbacks are
  attached again, for every provider, descriptor and state.
\<close>

lemma status_after_events:
  "status (fold (call_status_listener ev) fs st) = (if HandleStatus \<in> set fs then ev else status st)"
proof (induction fs arbitrary: st)
  case Nil
  show ?case by simp
next
  case (Cons f fs)
  show ?case by (cases f) (simp_all add: Cons.IH handleStatus_def)
qed

lemma reattached_after_teardown:
  "fst (sessionEffect (Some (sessionCleanup p)) u st) \<noteq> None \<and>
   (\<forall>q. fst (sessionEffect (Some (sessionCleanup p)) u st) = Some q \<longrightarrow>
      p_destroyed q \<and>
      status (emit_status q ev (snd (sessionEffect (Some (sessionCleanup p)) u st))) = ev)"
  by (simp add: sessionEffect_def Let_def emit_status_def status_after_events
      setLocalStateField_user_def observer_on_def sessionCleanup_def destroy_def)

text \<open>
  C7. After the teardown of a session, no status or awareness event of that session may
  change the status or the participant list. The code breaks this when another session
  object with the same access token is stored while a room is open (here the e-mail
  address of the user changes): the memo keeps the provider, the effect runs its cleanup,
  which detaches both callbacks and destroys the provider, and then its body, which
  attaches both callbacks to the destroyed provider again. A status event of the torn-down
  provider then sets the status, and a change event rewrites the participant list.
\<close>

theorem teardown_then_session_change_reattaches:
  "(let st0 = setSession (Some example_session)
                (App_init True (example_window [(js ''room'', js ''r1'')]));
        (prov1, st1) = sessionEffect (provider_memo 7 st0) (user_memo 23 (Some example_session)) st0;
        (prov2, st2) = sessionChange 7 23
                         (Some (example_session\<lparr>s_email := js ''new@example.com''\<rparr>)) (prov1, st1)
    in case prov2 of
         None \<Rightarrow> False
       | Some p \<Rightarrow>
           p_destroyed p \<and> token st2 = token st1 \<and> roomId st2 = roomId st1 \<and>
           status st2 = js ''connecting'' \<and>
           status (emit_status p (js ''disconnected'') st2) = js ''disconnected'' \<and>
           users st2 = [user_memo 23 (Some (example_session\<lparr>s_email := js ''new@example.com''\<rparr>))] \<and>
           users (emit_change (p\<lparr>p_states := []\<rparr>) st2) = [])"
  by code_simp

section \<open>The address after a room selection change\<close>

lemma get_delete_same: "searchParams_get n (searchParams_delete n ps) = None"
  by (induction ps) (simp_all add: searchParams_get_def searchParams_delete_def)

lemma get_delete_other:
  "n \<noteq> m \<Longrightarrow> searchParams_get n (searchParams_delete m ps) = searchParams_get n ps"
  by (induction ps) (simp_all add: searchParams_get_def searchParams_delete_def)

lemma get_set_same: "searchParams_get n (searchParams_set n v ps) = Some v"
  by (induction ps) (simp_all add: searchParams_get_def)

lemma filter_delete:
  "(\<And>v. \<not> P (n, v)) \<Longrightarrow> filter P (searchParams_delete n ps) = filter P ps"
  by (induction ps) (auto simp: searchParams_delete_def)

lemma filter_set:
  "(\<And>v. \<not> P (n, v)) \<Longrightarrow> filter P (searchParams_set n v ps) = filter P ps"
proof (induction ps)
  case Nil
  then show ?case by simp
next
  case (Cons p ps)
  then show ?case by (cases p) (auto simp: filter_delete)
qed

lemma param_names_distinct:
  "js ''room'' \<noteq> js ''doc''" "js ''room'' \<noteq> js ''invite''" "js ''doc'' \<noteq> js ''invite''"
  "js ''doc'' \<noteq> js ''room''" "js ''invite'' \<noteq> js ''room''" "js ''invite'' \<noteq> js ''doc''"
  by (simp_all add: js_def)

lemma updateRoomInUrl_params:
  "url_searchParams (h_current (updateRoomInUrl rid w)) =
     searchParams_delete (js ''invite'') (searchParams_delete (js ''doc'')
       (if rid \<noteq> [] then searchParams_set (js ''room'') rid (url_searchParams (h_current w))
        else searchParams_delete (js ''room'') (url_searchParams (h_current w))))"
  by (simp add: updateRoomInUrl_def replaceState_def Let_def)

lemma updateRoomInUrl_room:
  "searchParams_get (js ''room'') (url_searchParams (h_current (updateRoomInUrl rid w))) =
     (if rid \<noteq> [] then Some rid else None)"
  by (simp add: updateRoomInUrl_params get_delete_other get_delete_same get_set_same
      param_names_distinct)

lemma updateRoomInUrl_doc_invite:
  "searchParams_get (js ''doc'') (url_searchParams (h_current (updateRoomInUrl rid w))) = None"
  "searchParams_get (js ''invite'') (url_searchParams (h_current (updateRoomInUrl rid w))) = None"
  by (simp_all add: updateRoomInUrl_params get_delete_other get_delete_same param_names_distinct)

lemma updateRoomInUrl_others:
  "filter isOtherParam (url_searchParams (h_current (updateRoomInUrl rid w))) =
   filter isOtherParam (url_searchParams (h_current w))"
  by (simp add: updateRoomInUrl_params filter_delete filter_set isOtherParam_def)

lemma updateRoomInUrl_frame:
  "h_back (updateRoomInUrl rid w) = h_back w"
  "h_forward (updateRoomInUrl rid w) = h_forward w"
  "url_base (h_current (updateRoomInUrl rid w)) = url_base (h_current w)"
  "url_hash (h_current (updateRoomInUrl rid w)) = url_hash (h_current w)"
  by (simp_all add: updateRoomInUrl_def replaceState_def Let_def)

lemma getSearchParam_room_updated: "getSearchParam (updateRoomInUrl rid w) (js ''room'') = rid"
  by (simp add: getSearchParam_def updateRoomInUrl_room)

lemma address_follows_room_join_rpc:
  "address_follows_room st (snd (joinRoomByKey_rpc s p (d, st)))"
  by (simp add: address_follows_room_def joinRoomByKey_rpc_def join_room_by_key_def Let_def
      split: option.split)

lemma address_follows_room_join:
  "address_follows_room st (snd (joinRoomByKey U k (d, st)))"
proof (cases "session st")
  case None
  then show ?thesis by (simp add: joinRoomByKey_def address_follows_room_def)
next
  case (Some s)
  then show ?thesis
    using address_follows_room_join_rpc [of st s "toUpperCase U (trim k)" d]
    by (simp add: joinRoomByKey_def Let_def) (simp add: address_follows_room_def)
qed

lemma address_follows_room_create:
  "address_follows_room st (snd (handleCreateRoom U e new_id (d, st)))"
  by (simp add: address_follows_room_def handleCreateRoom_def rooms_insert_def
      room_members_upsert_def Let_def split: option.split)

lemma address_follows_room_signOut:
  "address_follows_room st (handleSignOut st)"
  by (simp add: address_follows_room_def handleSignOut_def setSession_def)

text \<open>
  C9. \<open>updateRoomInUrl\<close> rewrites the address so that the \<open>room\<close> parameter reads as the new
  room id (it is present with that value when the id is not empty, and absent, which
  reads as the empty id, when it is), the \<open>doc\<close> and \<open>invite\<close> parameters are absent, the
  entries behind and ahead of the current history entry stay as they are (the current
  entry is replaced, no entry is added), and the base, the fragment and the other
  parameters of the address are unchanged. Every handler that sets the room id
  (\<open>joinRoomByKey\<close>, \<open>handleCreateRoom\<close>, \<open>handleSignOut\<close>) either leaves room id and address
  alone or rewrites the address in this way for the new room id.
\<close>

theorem room_change_rewrites_address:
  "getSearchParam (updateRoomInUrl rid w) (js ''room'') = rid \<and>
   searchParams_get (js ''room'') (url_searchParams (h_current (updateRoomInUrl rid w))) =
     (if rid \<noteq> [] then Some rid else None) \<and>
   searchParams_get (js ''doc'') (url_searchParams (h_current (updateRoomInUrl rid w))) = None \<and>
   searchParams_get (js ''invite'') (url_searchParams (h_current (updateRoomInUrl rid w))) = None \<and>
   h_back (updateRoomInUrl rid w) = h_back w \<and>
   h_forward (updateRoomInUrl rid w) = h_forward w \<and>
   url_base (h_current (updateRoomInUrl rid w)) = url_base (h_current w) \<and>
   url_hash (h_current (updateRoomInUrl rid w)) = url_hash (h_current w) \<and>
   filter isOtherParam (url_searchParams (h_current (updateRoomInUrl rid w))) =
     filter isOtherParam (url_searchParams (h_current w)) \<and>
   address_follows_room st (snd (joinRoomByKey U k (d, st))) \<and>
   address_follows_room st (snd (handleCreateRoom U e new_id (d, st))) \<and>
   address_follows_room st (handleSignOut st)"
  by (intro conjI getSearchParam_room_updated updateRoomInUrl_room updateRoomInUrl_doc_invite
      updateRoomInUrl_frame updateRoomInUrl_others address_follows_room_join
      address_follows_room_create address_follows_room_signOut)

theorem room_change_rewrites_address_witness:
  "url_searchParams (h_current (updateRoomInUrl (js ''r2'')
      (example_window [(js ''a'', js ''1''), (js ''doc'', js ''old''), (js ''room'', js ''r1''),
         (js ''invite'', js ''8K2A1F''), (js ''room'', js ''r0''), (js ''b'', js ''2'')]))) =
     [(js ''a'', js ''1''), (js ''room'', js ''r2''), (js ''b'', js ''2'')] \<and>
   getSearchParam (updateRoomInUrl (js ''r2'')
      (example_window [(js ''a'', js ''1''), (js ''doc'', js ''old''), (js ''room'', js ''r1''),
         (js ''invite'', js ''8K2A1F''), (js ''room'', js ''r0''), (js ''b'', js ''2'')])) (js ''room'') = js ''r2'' \<and>
   url_searchParams (h_current (updateRoomInUrl []
      (example_window [(js ''a'', js ''1''), (js ''doc'', js ''old''), (js ''room'', js ''r1'')]))) =
     [(js ''a'', js ''1'')] \<and>
   getSearchParam (updateRoomInUrl []
      (example_window [(js ''a'', js ''1''), (js ''doc'', js ''old''), (js ''room'', js ''r1'')])) (js ''room'') = []"
proof -
  have a: "url_searchParams (h_current (updateRoomInUrl (js ''r2'')
      (example_window [(js ''a'', js ''1''), (js ''doc'', js ''old''), (js ''room'', js ''r1''),
         (js ''invite'', js ''8K2A1F''), (js ''room'', js ''r0''), (js ''b'', js ''2'')]))) =
     [(js ''a'', js ''1''), (js ''room'', js ''r2''), (js ''b'', js ''2'')]"
    by (simp add: updateRoomInUrl_params searchParams_delete_def example_window_def js_def)
  have b: "url_searchParams (h_current (updateRoomInUrl []
      (example_window [(js ''a'', js ''1''), (js ''doc'', js ''old''), (js ''room'', js ''r1'')]))) =
     [(js ''a'', js ''1'')]"
    by (simp add: updateRoomInUrl_params searchParams_delete_def example_window_def js_def)
  note i1 = room_change_rewrites_address [of "js ''r2''"
      "example_window [(js ''a'', js ''1''), (js ''doc'', js ''old''), (js ''room'', js ''r1''),
         (js ''invite'', js ''8K2A1F''), (js ''room'', js ''r0''), (js ''b'', js ''2'')]"]
  note i2 = room_change_rewrites_address [of "[]"
      "example_window [(js ''a'', js ''1''), (js ''doc'', js ''old''), (js ''room'', js ''r1'')]"]
  show ?thesis using a b i1 i2 by blast
qed

section \<open>The privileged lookup and the membership table\<close>

lemma has_member_set:
  "has_member d rid uid \<longleftrightarrow>
     (rid, uid) \<in> set (map (\<lambda>m. (m_room_id m, m_user_id m)) (room_members d))"
  by (auto simp: has_member_def list_ex_iff)

lemma insert_member_existing:
  "has_member d rid uid \<Longrightarrow> insert_member_on_conflict_do_nothing d rid uid = d"
  by (simp add: insert_member_on_conflict_do_nothing_def)

lemma has_member_after_insert:
  "has_member (insert_member_on_conflict_do_nothing d rid uid) rid uid"
  by (simp add: insert_member_on_conflict_do_nothing_def has_member_def new_member_def)

lemma insert_member_twice:
  "insert_member_on_conflict_do_nothing (insert_member_on_conflict_do_nothing d rid uid) rid uid
     = insert_member_on_conflict_do_nothing d rid uid"
  by (rule insert_member_existing) (rule has_member_after_insert)

lemma rooms_after_insert_member [simp]:
  "rooms (insert_member_on_conflict_do_nothing d rid uid) = rooms d"
  by (simp add: insert_member_on_conflict_do_nothing_def)

lemma join_room_by_key_twice:
  "join_room_by_key (fst (join_room_by_key d uid k)) uid k = join_room_by_key d uid k"
  by (cases "find (\<lambda>r. r_key r = k) (rooms d)")
    (simp_all add: join_room_by_key_def insert_member_twice)

lemma members_unique_insert:
  "members_unique d \<Longrightarrow> members_unique (insert_member_on_conflict_do_nothing d rid uid)"
  by (simp add: insert_member_on_conflict_do_nothing_def has_member_set)
    (simp add: members_unique_def new_member_def)

lemma members_unique_join:
  "members_unique d \<Longrightarrow> members_unique (fst (join_room_by_key d uid k))"
  by (cases "find (\<lambda>r. r_key r = k) (rooms d)")
    (simp_all add: join_room_by_key_def members_unique_insert)

lemma members_unique_upsert:
  "members_unique d \<Longrightarrow> members_unique (fst (room_members_upsert d uid rid u))"
  by (simp add: room_members_upsert_def has_member_set)
    (simp add: members_unique_def new_member_def)

lemma members_after_rooms_insert:
  "room_members (fst (rooms_insert d uid new_id k owner)) = room_members d"
  by (simp add: rooms_insert_def Let_def)

lemma members_unique_rooms_insert:
  "members_unique d \<Longrightarrow> members_unique (fst (rooms_insert d uid new_id k owner))"
  by (simp add: members_unique_def members_after_rooms_insert)

lemma fst_joinRoomByKey_rpc:
  "fst (joinRoomByKey_rpc s p (d, st)) = fst (join_room_by_key d (s_user_id s) p)"
  by (simp add: joinRoomByKey_rpc_def Let_def split: prod.split sum.split)

lemma members_unique_joinRoomByKey:
  "members_unique d \<Longrightarrow> members_unique (fst (joinRoomByKey U k (d, st)))"
  by (cases "session st")
    (simp_all add: joinRoomByKey_def Let_def fst_joinRoomByKey_rpc members_unique_join)

lemma members_unique_handleCreateRoom:
  assumes "members_unique d"
  shows "members_unique (fst (handleCreateRoom U e new_id (d, st)))"
proof (cases "session st")
  case None
  with assms show ?thesis by (simp add: handleCreateRoom_def)
next
  case (Some s)
  show ?thesis
  proof (cases "supabase st")
    case False
    with Some assms show ?thesis by (simp add: handleCreateRoom_def)
  next
    case True
    obtain d1 r1 where
      i: "rooms_insert d (s_user_id s) new_id (generateRoomKey U e) (s_user_id s) = (d1, r1)"
      by (cases "rooms_insert d (s_user_id s) new_id (generateRoomKey U e) (s_user_id s)")
    from members_unique_rooms_insert [OF assms, of "s_user_id s" new_id "generateRoomKey U e" "s_user_id s"] i
    have u1: "members_unique d1" by simp
    show ?thesis
    proof (cases r1)
      case (Inl err)
      with Some True i have "fst (handleCreateRoom U e new_id (d, st)) = d1"
        by (simp add: handleCreateRoom_def Let_def)
      with u1 show ?thesis by simp
    next
      case (Inr room)
      obtain d2 r2 where
        u: "room_members_upsert d1 (s_user_id s) (r_id room) (s_user_id s) = (d2, r2)"
        by (cases "room_members_upsert d1 (s_user_id s) (r_id room) (s_user_id s)")
      from members_unique_upsert [OF u1, of "s_user_id s" "r_id room" "s_user_id s"] u
      have u2: "members_unique d2" by simp
      from Some True i Inr u have "fst (handleCreateRoom U e new_id (d, st)) = d2"
        by (cases r2) (simp_all add: handleCreateRoom_def Let_def)
      with u2 show ?thesis by simp
    qed
  qed
qed

lemma members_unique_exec_op:
  "members_unique d \<Longrightarrow> members_unique (exec_op U op d)"
  by (cases op) (simp_all add: members_unique_handleCreateRoom members_unique_joinRoomByKey)

lemma members_unique_run_ops:
  "members_unique d \<Longrightarrow> members_unique (run_ops U ops d)"
  unfolding run_ops_def
  by (induction ops arbitrary: d) (simp_all add: members_unique_exec_op)

lemma members_unique_empty: "members_unique empty_db"
  by (simp add: members_unique_def empty_db_def)

lemma join_unknown_key:
  "\<not> list_ex (\<lambda>r. r_key r = p_key) (rooms d) \<Longrightarrow>
   join_room_by_key d uid p_key = (d, Inl RoomNotFound)"
  by (simp add: join_room_by_key_def list_ex_iff find_None_iff [THEN iffD2])

lemma joinRoomByKey_rpc_unknown_key:
  "\<not> list_ex (\<lambda>r. r_key r = p_key) (rooms d) \<Longrightarrow>
   joinRoomByKey_rpc s p_key (d, st) =
     (d, st\<lparr>roomError := js ''room-not-found'', roomLoading := False\<rparr>)"
  by (simp add: joinRoomByKey_rpc_def join_unknown_key or_else_def js_def)

lemma joinRoomByKey_signed_in:
  "session st = Some s \<Longrightarrow> supabase st \<Longrightarrow>
   joinRoomByKey U k (d, st) =
     (if toUpperCase U (trim k) = [] then (d, st\<lparr>roomError := js ''Enter a room key''\<rparr>)
      else joinRoomByKey_rpc s (toUpperCase U (trim k)) (d, st))"
  by (simp add: joinRoomByKey_def Let_def)

lemma joinRoomByKey_unknown_key_db:
  "\<not> list_ex (\<lambda>r. r_key r = toUpperCase U (trim k)) (rooms d) \<Longrightarrow>
   fst (joinRoomByKey U k (d, st)) = d"
  by (cases "session st")
    (simp_all add: joinRoomByKey_def Let_def joinRoomByKey_rpc_unknown_key)

text \<open>
  C3. For a key that no room has, the function \<open>join_room_by_key\<close> raises
  \<open>room-not-found\<close> and leaves the database, and so the membership table, as it was; the
  client stores the message \<open>room-not-found\<close> as its room error; and whatever text the
  client is given, if its normalised form is a key that no room has, the database after
  \<open>joinRoomByKey\<close> is the database before.
\<close>

theorem unknown_key_fails_membership_unchanged:
  assumes "\<not> list_ex (\<lambda>r. r_key r = p_key) (rooms d)"
  shows "join_room_by_key d uid p_key = (d, Inl RoomNotFound) \<and>
         error_message RoomNotFound = js ''room-not-found'' \<and>
         joinRoomByKey_rpc s p_key (d, st) =
           (d, st\<lparr>roomError := js ''room-not-found'', roomLoading := False\<rparr>) \<and>
         (toUpperCase U (trim k) = p_key \<longrightarrow>
            fst (joinRoomByKey U k (d, st)) = d \<and>
            room_members (fst (joinRoomByKey U k (d, st))) = room_members d)"
  using assms
  by (auto simp: join_unknown_key joinRoomByKey_rpc_unknown_key joinRoomByKey_unknown_key_db)

theorem unknown_key_fails_membership_unchanged_witness:
  "\<not> list_ex (\<lambda>r. r_key r = js ''ZZZZZZ'') (rooms example_db) \<and>
   join_room_by_key example_db 2 (js ''ZZZZZZ'') = (example_db, Inl RoomNotFound) \<and>
   toUpperCase (\<lambda>s. s) (trim (js '' zzzzzz '')) = js ''ZZZZZZ'' \<and>
   fst (joinRoomByKey (\<lambda>s. s) (js '' zzzzzz '') (example_db, client2)) = example_db \<and>
   roomError (snd (joinRoomByKey (\<lambda>s. s) (js '' zzzzzz '') (example_db, client2))) =
     js ''room-not-found''"
proof -
  have h: "\<not> list_ex (\<lambda>r. r_key r = js ''ZZZZZZ'') (rooms example_db)"
    by (simp add: example_db_def js_def)
  have n: "toUpperCase (\<lambda>s. s) (trim (js '' zzzzzz '')) = js ''ZZZZZZ''"
    by code_simp
  have c: "session client2 = Some example_session2" "supabase client2"
    by (simp_all add: client2_def setSession_def App_init_def)
  note inst = unknown_key_fails_membership_unchanged
    [OF h, of 2 example_session2 client2 "\<lambda>s. s" "js '' zzzzzz ''"]
  have e: "roomError (snd (joinRoomByKey (\<lambda>s. s) (js '' zzzzzz '') (example_db, client2))) =
     js ''room-not-found''"
    using inst n by (simp add: joinRoomByKey_signed_in [OF c] js_def)
  show ?thesis using h n inst e by simp
qed

text \<open>
  The upsert of \<open>handleCreateRoom\<close> follows the insertion of a room whose id is new, so
  in a database that satisfies the foreign key no membership row for that room exists:
  the upsert takes its insert arm and adds the owner's row.
\<close>

lemma upsert_after_new_room:
  assumes "members_reference_rooms d"
    and "rooms_insert d uid new_id k uid = (d1, Inr room)"
  shows "r_id room = new_id \<and> \<not> has_member d1 new_id uid \<and>
         room_members_upsert d1 uid new_id uid =
           (d1\<lparr>room_members := room_members d1 @ [new_member d1 new_id uid]\<rparr>, Inr ())"
proof -
  from assms(2) have new: "\<not> list_ex (\<lambda>r. r_id r = new_id) (rooms d)"
    and room: "r_id room = new_id"
    and d1: "d1 = d\<lparr>rooms := rooms d @ [room]\<rparr>"
    by (auto simp: rooms_insert_def Let_def split: if_splits)
  have "\<not> has_member d new_id uid"
  proof
    assume "has_member d new_id uid"
    then obtain m where "m \<in> set (room_members d)" "m_room_id m = new_id"
      by (auto simp: has_member_def list_ex_iff)
    with assms(1) have "list_ex (\<lambda>r. r_id r = new_id) (rooms d)"
      by (auto simp: members_reference_rooms_def list_all_iff)
    with new show False by simp
  qed
  then have "\<not> has_member d1 new_id uid"
    by (simp add: d1 has_member_def)
  moreover have "list_ex (\<lambda>r. r_id r = new_id) (rooms d1)"
    by (simp add: d1 room)
  ultimately show ?thesis
    by (simp add: room room_members_upsert_def)
qed

text \<open>
  The foreign key of \<open>room_id\<close> is kept by every operation.
\<close>

lemma refs_insert_member:
  "members_reference_rooms d \<Longrightarrow> list_ex (\<lambda>r. r_id r = rid) (rooms d) \<Longrightarrow>
   members_reference_rooms (insert_member_on_conflict_do_nothing d rid uid)"
  by (simp add: members_reference_rooms_def insert_member_on_conflict_do_nothing_def new_member_def)

lemma refs_join:
  "members_reference_rooms d \<Longrightarrow> members_reference_rooms (fst (join_room_by_key d uid k))"
proof (cases "find (\<lambda>r. r_key r = k) (rooms d)")
  case None
  assume "members_reference_rooms d"
  with None show ?thesis by (simp add: join_room_by_key_def)
next
  case (Some r)
  assume a: "members_reference_rooms d"
  from Some have "r \<in> set (rooms d)"
    by (auto simp: find_Some_iff)
  then have "list_ex (\<lambda>x. r_id x = r_id r) (rooms d)"
    by (auto simp: list_ex_iff)
  with a Some show ?thesis
    by (simp add: join_room_by_key_def refs_insert_member)
qed

lemma refs_more_rooms:
  "members_reference_rooms d \<Longrightarrow> members_reference_rooms (d\<lparr>rooms := rooms d @ rs\<rparr>)"
  by (auto simp: members_reference_rooms_def list_all_iff list_ex_iff)

lemma refs_rooms_insert:
  "members_reference_rooms d \<Longrightarrow>
   members_reference_rooms (fst (rooms_insert d uid new_id k owner))"
  by (simp add: rooms_insert_def Let_def refs_more_rooms)

lemma refs_upsert:
  "members_reference_rooms d \<Longrightarrow>
   members_reference_rooms (fst (room_members_upsert d uid rid u))"
  by (simp add: room_members_upsert_def)
    (simp add: members_reference_rooms_def new_member_def)

lemma refs_joinRoomByKey:
  "members_reference_rooms d \<Longrightarrow> members_reference_rooms (fst (joinRoomByKey U k (d, st)))"
  by (cases "session st")
    (simp_all add: joinRoomByKey_def Let_def fst_joinRoomByKey_rpc refs_join)

lemma fst_handleCreateRoom:
  "fst (handleCreateRoom U e new_id (d, st)) = d \<or>
   (\<exists>uid. fst (handleCreateRoom U e new_id (d, st)) =
      fst (rooms_insert d uid new_id (generateRoomKey U e) uid) \<or>
    (\<exists>rid. fst (handleCreateRoom U e new_id (d, st)) =
      fst (room_members_upsert (fst (rooms_insert d uid new_id (generateRoomKey U e) uid))
        uid rid uid)))"
proof (cases "session st")
  case None
  then show ?thesis by (simp add: handleCreateRoom_def)
next
  case (Some s)
  show ?thesis
  proof (cases "supabase st")
    case False
    with Some show ?thesis by (simp add: handleCreateRoom_def)
  next
    case True
    let ?ins = "rooms_insert d (s_user_id s) new_id (generateRoomKey U e) (s_user_id s)"
    obtain d1 r1 where i: "?ins = (d1, r1)" by (cases ?ins)
    show ?thesis
    proof (cases r1)
      case (Inl err)
      with Some True i have "fst (handleCreateRoom U e new_id (d, st)) = fst ?ins"
        by (simp add: handleCreateRoom_def Let_def)
      then show ?thesis by blast
    next
      case (Inr room)
      let ?up = "room_members_upsert d1 (s_user_id s) (r_id room) (s_user_id s)"
      obtain d2 r2 where u: "?up = (d2, r2)" by (cases ?up)
      from Some True i Inr u have "fst (handleCreateRoom U e new_id (d, st)) = fst ?up"
        by (cases r2) (simp_all add: handleCreateRoom_def Let_def)
      with i have "fst (handleCreateRoom U e new_id (d, st)) =
          fst (room_members_upsert (fst ?ins) (s_user_id s) (r_id room) (s_user_id s))"
        by simp
      then show ?thesis by blast
    qed
  qed
qed

lemma refs_handleCreateRoom:
  assumes "members_reference_rooms d"
  shows "members_reference_rooms (fst (handleCreateRoom U e new_id (d, st)))"
  using fst_handleCreateRoom [of U e new_id d st] assms
  by (auto simp: refs_rooms_insert refs_upsert)

lemma refs_exec_op:
  "members_reference_rooms d \<Longrightarrow> members_reference_rooms (exec_op U op d)"
  by (cases op) (simp_all add: refs_handleCreateRoom refs_joinRoomByKey)

lemma refs_run_ops:
  "members_reference_rooms d \<Longrightarrow> members_reference_rooms (run_ops U ops d)"
  unfolding run_ops_def
  by (induction ops arbitrary: d) (simp_all add: refs_exec_op)

lemma refs_empty: "members_reference_rooms empty_db"
  by (simp add: members_reference_rooms_def empty_db_def)

lemma handleCreateRoom_member_inserted:
  assumes "members_reference_rooms d" "session st = Some s" "supabase st"
    and "rooms_insert d (s_user_id s) new_id (generateRoomKey U e) (s_user_id s) = (d1, Inr room)"
  shows "handleCreateRoom U e new_id (d, st) =
           (d1\<lparr>room_members := room_members d1 @ [new_member d1 new_id (s_user_id s)]\<rparr>,
            st\<lparr>roomError := [], roomLoading := False, roomId := uuid_text new_id,
               inviteKey := [], window := updateRoomInUrl (uuid_text new_id) (window st)\<rparr>)"
proof -
  note u = upsert_after_new_room [OF assms(1,4)]
  from u have rid: "r_id room = new_id" by simp
  from u assms(2-4) show ?thesis
    by (simp add: handleCreateRoom_def Let_def rid)
qed

text \<open>
  C4. The insertion of a membership row is idempotent: when the row for a room and a user
  exists, the insert of \<open>join_room_by_key\<close> leaves the database as it is, and the function
  returns the room id, not an error; after the insert the row exists; a second call of
  \<open>join_room_by_key\<close> gives the database and the result of the first. The other insertion,
  the upsert of \<open>handleCreateRoom\<close>, never meets an existing row in a database whose
  membership rows refer to rooms of the table: after the insertion of the new room it
  adds the owner's row and gives no error, and so does the handler as a whole. Every
  sequence of create and join operations of any clients keeps both properties of the
  database, at most one row for each pair of room and user and every row referring to a
  room, and both hold in the empty database: so they hold in every database that the
  operations reach.
\<close>

theorem membership_insertion_idempotent:
  "(has_member d rid uid \<longrightarrow> insert_member_on_conflict_do_nothing d rid uid = d) \<and>
   has_member (insert_member_on_conflict_do_nothing d rid uid) rid uid \<and>
   (find (\<lambda>r. r_key r = k) (rooms d) = Some r \<and> has_member d (r_id r) uid \<longrightarrow>
      join_room_by_key d uid k = (d, Inr (r_id r))) \<and>
   join_room_by_key (fst (join_room_by_key d uid k)) uid k = join_room_by_key d uid k \<and>
   (members_reference_rooms d \<and> rooms_insert d uid new_id key uid = (dr, Inr row) \<longrightarrow>
      \<not> has_member dr (r_id row) uid \<and>
      room_members_upsert dr uid (r_id row) uid =
        (dr\<lparr>room_members := room_members dr @ [new_member dr (r_id row) uid]\<rparr>, Inr ())) \<and>
   (members_reference_rooms d \<and> session st = Some s \<and> supabase st \<and>
    rooms_insert d (s_user_id s) new_id (generateRoomKey U e) (s_user_id s) = (dc, Inr rowc) \<longrightarrow>
      handleCreateRoom U e new_id (d, st) =
        (dc\<lparr>room_members := room_members dc @ [new_member dc new_id (s_user_id s)]\<rparr>,
         st\<lparr>roomError := [], roomLoading := False, roomId := uuid_text new_id,
            inviteKey := [], window := updateRoomInUrl (uuid_text new_id) (window st)\<rparr>)) \<and>
   (members_unique d \<longrightarrow> members_unique (run_ops U ops d)) \<and>
   (members_reference_rooms d \<longrightarrow> members_reference_rooms (run_ops U ops d)) \<and>
   members_unique (run_ops U ops empty_db) \<and>
   members_reference_rooms (run_ops U ops empty_db)"
proof (intro conjI impI)
  show "insert_member_on_conflict_do_nothing d rid uid = d" if "has_member d rid uid"
    using that by (rule insert_member_existing)
  show "has_member (insert_member_on_conflict_do_nothing d rid uid) rid uid"
    by (rule has_member_after_insert)
  show "join_room_by_key d uid k = (d, Inr (r_id r))"
    if "find (\<lambda>r. r_key r = k) (rooms d) = Some r \<and> has_member d (r_id r) uid"
    using that by (simp add: join_room_by_key_def insert_member_existing)
  show "join_room_by_key (fst (join_room_by_key d uid k)) uid k = join_room_by_key d uid k"
    by (rule join_room_by_key_twice)
  show "members_unique (run_ops U ops d)" if "members_unique d"
    using that by (rule members_unique_run_ops)
  show "members_reference_rooms (run_ops U ops d)" if "members_reference_rooms d"
    using that by (rule refs_run_ops)
  show "members_unique (run_ops U ops empty_db)"
    by (rule members_unique_run_ops) (rule members_unique_empty)
  show "members_reference_rooms (run_ops U ops empty_db)"
    by (rule refs_run_ops) (rule refs_empty)
next
  assume a: "members_reference_rooms d \<and> rooms_insert d uid new_id key uid = (dr, Inr row)"
  then have a1: "members_reference_rooms d"
    and a2: "rooms_insert d uid new_id key uid = (dr, Inr row)"
    by simp_all
  note u = upsert_after_new_room [OF a1 a2]
  from u show "\<not> has_member dr (r_id row) uid" by simp
  from u show "room_members_upsert dr uid (r_id row) uid =
        (dr\<lparr>room_members := room_members dr @ [new_member dr (r_id row) uid]\<rparr>, Inr ())"
    by simp
next
  assume "members_reference_rooms d \<and> session st = Some s \<and> supabase st \<and>
    rooms_insert d (s_user_id s) new_id (generateRoomKey U e) (s_user_id s) = (dc, Inr rowc)"
  then have b: "members_reference_rooms d" "session st = Some s" "supabase st"
    "rooms_insert d (s_user_id s) new_id (generateRoomKey U e) (s_user_id s) = (dc, Inr rowc)"
    by simp_all
  show "handleCreateRoom U e new_id (d, st) =
        (dc\<lparr>room_members := room_members dc @ [new_member dc new_id (s_user_id s)]\<rparr>,
         st\<lparr>roomError := [], roomLoading := False, roomId := uuid_text new_id,
            inviteKey := [], window := updateRoomInUrl (uuid_text new_id) (window st)\<rparr>)"
    by (rule handleCreateRoom_member_inserted [OF b])
qed

theorem membership_insertion_idempotent_witness:
  "has_member example_db 0x77 1 \<and>
   insert_member_on_conflict_do_nothing example_db 0x77 1 = example_db \<and>
   join_room_by_key example_db 1 (js ''8K2A1F'') = (example_db, Inr 0x77) \<and>
   members_unique example_db \<and> members_reference_rooms example_db \<and>
   rooms_insert example_db 2 0x78 (js ''KV2DOZ'') 2 =
     (example_db\<lparr>rooms := rooms example_db @
         [\<lparr>r_id = 0x78, r_key = js ''KV2DOZ'', r_owner_id = 2, r_created_at = 5\<rparr>]\<rparr>,
      Inr \<lparr>r_id = 0x78, r_key = js ''KV2DOZ'', r_owner_id = 2, r_created_at = 5\<rparr>) \<and>
   snd (room_members_upsert (example_db\<lparr>rooms := rooms example_db @
         [\<lparr>r_id = 0x78, r_key = js ''KV2DOZ'', r_owner_id = 2, r_created_at = 5\<rparr>]\<rparr>) 2 0x78 2) =
     Inr () \<and>
   roomError (snd (handleCreateRoom example_upper (Crypto (\<lambda>i. of_nat (i * 47 + 200))) 0x78
     (example_db, client2))) = [] \<and>
   map (\<lambda>m. (m_room_id m, m_user_id m)) (room_members (fst (handleCreateRoom example_upper
     (Crypto (\<lambda>i. of_nat (i * 47 + 200))) 0x78 (example_db, client2)))) =
     [(0x77, 1), (0x78, 2)] \<and>
   members_unique (run_ops example_upper
     [JoinByKey client2 (js ''8k2a1f''), JoinByKey client2 (js '' 8K2A1F ''),
      CreateRoom client2 (Crypto (\<lambda>i. of_nat (i * 47 + 200))) 0x78,
      JoinByKey client1 (js ''kv2doz'')] example_db) \<and>
   members_reference_rooms (run_ops example_upper
     [JoinByKey client2 (js ''8k2a1f''), JoinByKey client2 (js '' 8K2A1F ''),
      CreateRoom client2 (Crypto (\<lambda>i. of_nat (i * 47 + 200))) 0x78,
      JoinByKey client1 (js ''kv2doz'')] example_db) \<and>
   map (\<lambda>m. (m_room_id m, m_user_id m)) (room_members (run_ops example_upper
     [JoinByKey client2 (js ''8k2a1f''), JoinByKey client2 (js '' 8K2A1F ''),
      CreateRoom client2 (Crypto (\<lambda>i. of_nat (i * 47 + 200))) 0x78,
      JoinByKey client1 (js ''kv2doz'')] example_db)) =
     [(0x77, 1), (0x77, 2), (0x78, 2), (0x78, 1)]"
proof -
  let ?e = "Crypto (\<lambda>i. of_nat (i * 47 + 200))"
  let ?ops = "[JoinByKey client2 (js ''8k2a1f''), JoinByKey client2 (js '' 8K2A1F ''),
      CreateRoom client2 ?e 0x78, JoinByKey client1 (js ''kv2doz'')]"
  let ?old = "\<lparr>r_id = 0x77, r_key = js ''8K2A1F'', r_owner_id = 1, r_created_at = 3\<rparr>"
  let ?new = "\<lparr>r_id = 0x78, r_key = js ''KV2DOZ'', r_owner_id = 2, r_created_at = 5\<rparr>"
  let ?da = "example_db\<lparr>rooms := rooms example_db @ [?new]\<rparr>"
  have m: "has_member example_db 0x77 1"
    by (simp add: has_member_def example_db_def)
  have f: "find (\<lambda>r. r_key r = js ''8K2A1F'') (rooms example_db) = Some ?old"
    by (simp add: example_db_def)
  have u: "members_unique example_db"
    by (simp add: members_unique_def example_db_def)
  have fk: "members_reference_rooms example_db"
    by (simp add: members_reference_rooms_def example_db_def)
  have k: "generateRoomKey example_upper ?e = js ''KV2DOZ''"
    by code_simp
  have i: "rooms_insert example_db 2 0x78 (js ''KV2DOZ'') 2 = (?da, Inr ?new)"
    by (simp add: rooms_insert_def example_db_def js_def Let_def)
  have c: "session client2 = Some example_session2" "supabase client2"
    by (simp_all add: client2_def setSession_def App_init_def)
  have uid: "s_user_id example_session2 = 2"
    by (simp add: example_session2_def)
  have i': "rooms_insert example_db (s_user_id example_session2) 0x78
      (generateRoomKey example_upper ?e) (s_user_id example_session2) = (?da, Inr ?new)"
    unfolding k uid by (rule i)
  have r: "map (\<lambda>m. (m_room_id m, m_user_id m)) (room_members (run_ops example_upper ?ops example_db)) =
     [(0x77, 1), (0x77, 2), (0x78, 2), (0x78, 1)]"
    by code_simp
  note inst = membership_insertion_idempotent [where d = example_db and rid = "0x77" and uid = 1
      and k = "js ''8K2A1F''" and r = ?old and U = example_upper and ops = ?ops]
  note insu = membership_insertion_idempotent [where d = example_db and uid = 2
      and new_id = "0x78" and key = "js ''KV2DOZ''" and dr = ?da and row = ?new]
  note insh = membership_insertion_idempotent [where d = example_db and st = client2
      and s = example_session2 and U = example_upper and e = ?e and new_id = "0x78"
      and dc = ?da and rowc = ?new]
  from inst m have a1: "insert_member_on_conflict_do_nothing example_db 0x77 1 = example_db"
    by blast
  from inst f m have a2: "join_room_by_key example_db 1 (js ''8K2A1F'') = (example_db, Inr 0x77)"
    by simp
  from insu fk i have "room_members_upsert ?da 2 (r_id ?new) 2 =
        (?da\<lparr>room_members := room_members ?da @ [new_member ?da (r_id ?new) 2]\<rparr>, Inr ())"
    by blast
  then have a3: "snd (room_members_upsert ?da 2 0x78 2) = Inr ()"
    by simp
  from insh fk c i' have h: "handleCreateRoom example_upper ?e 0x78 (example_db, client2) =
        (?da\<lparr>room_members := room_members ?da @ [new_member ?da 0x78 (s_user_id example_session2)]\<rparr>,
         client2\<lparr>roomError := [], roomLoading := False, roomId := uuid_text 0x78,
            inviteKey := [], window := updateRoomInUrl (uuid_text 0x78) (window client2)\<rparr>)"
    by blast
  have a4: "roomError (snd (handleCreateRoom example_upper ?e 0x78 (example_db, client2))) = []"
    unfolding h by simp
  have a5: "map (\<lambda>m. (m_room_id m, m_user_id m)) (room_members (fst (handleCreateRoom example_upper
     ?e 0x78 (example_db, client2)))) = [(0x77, 1), (0x78, 2)]"
    unfolding h by (simp add: example_db_def new_member_def uid)
  from inst u have a6: "members_unique (run_ops example_upper ?ops example_db)"
    by blast
  from inst fk have a7: "members_reference_rooms (run_ops example_upper ?ops example_db)"
    by blast
  show ?thesis
    by (intro conjI m a1 a2 u fk i a3 a4 a5 a6 a7 r)
qed

section \<open>Creating a room and joining it by key\<close>

lemma lower_of_upper:
  assumes "0x41 \<le> a" "a \<le> (0x5A :: jschar)"
  shows "unat (a + 0x20) = unat a + 32"
proof -
  from assms have "unat a \<le> 90" by (simp add: word_le_nat_alt)
  then show ?thesis by (simp add: unat_word_ariths)
qed

lemma variant_char:
  assumes "isBase36Upper a" and "b = a \<or> b = asciiLower a"
  shows "isAscii b \<and> asciiUpper b = a \<and> \<not> isWhiteSpace b"
proof (cases "0x41 \<le> a \<and> a \<le> 0x5A \<and> b = a + 0x20")
  case True
  then have u: "unat b = unat a + 32" "65 \<le> unat a" "unat a \<le> 90"
    by (simp_all add: lower_of_upper) (simp_all add: word_le_nat_alt)
  have "isAscii b" using u by (simp add: isAscii_def word_less_nat_alt)
  moreover have "asciiUpper b = a" using u True
    by (simp add: asciiUpper_def word_le_nat_alt)
  moreover have "\<not> isWhiteSpace b" using u
    by (auto simp: isWhiteSpace_def word_le_nat_alt dest!: arg_cong [where f = unat])
  ultimately show ?thesis by simp
next
  case False
  with assms(2) have "b = a" by (auto simp: asciiLower_def)
  with assms(1) show ?thesis
    by (simp add: isBase36Upper_ascii isBase36Upper_fix isBase36Upper_not_space)
qed

lemma variant_string:
  "list_all2 (\<lambda>a b. b = a \<or> b = asciiLower a) k v \<Longrightarrow> list_all isBase36Upper k \<Longrightarrow>
   list_all isAscii v \<and> map asciiUpper v = k \<and> list_all (\<lambda>c. \<not> isWhiteSpace c) v"
proof (induction rule: list_all2_induct)
  case Nil
  show ?case by simp
next
  case (Cons a k b v)
  from Cons.prems have "isBase36Upper a" "list_all isBase36Upper k" by simp_all
  with Cons.IH variant_char [OF \<open>isBase36Upper a\<close> Cons.hyps(1)] show ?case by simp
qed

lemma normalise_variant:
  assumes "list_all isBase36Upper k" "caseVariant k v"
    and "list_all isWhiteSpace pre" "list_all isWhiteSpace post"
  shows "toUpperCase U (trim (pre @ v @ post)) = k"
proof -
  from variant_string [OF assms(2) [unfolded caseVariant_def] assms(1)]
  have v: "list_all isAscii v" "map asciiUpper v = k" "list_all (\<lambda>c. \<not> isWhiteSpace c) v"
    by simp_all
  from trim_surrounded [OF assms(3,4) v(3)] v(1,2) show ?thesis
    by (simp add: toUpperCase_def)
qed

lemma uuid_text_nonempty: "uuid_text u \<noteq> []"
  by (simp add: uuid_text_def Let_def js_def)

lemma error_message_nonempty: "error_message err \<noteq> []"
  by (cases err) (simp_all add: js_def)

lemma find_append_new:
  "\<not> list_ex P xs \<Longrightarrow> P y \<Longrightarrow> find P (xs @ [y]) = Some y"
  by (induction xs) simp_all

lemma find_append_old: "find P xs = Some r \<Longrightarrow> find P (xs @ ys) = Some r"
  by (induction xs) (simp_all split: if_splits)

lemma handleCreateRoom_success:
  assumes s: "session st = Some s" "supabase st"
    and h: "handleCreateRoom U e new_id (d, st) = (d1, st1)"
    and ok: "roomError st1 = []"
  shows "rooms d1 = rooms d @ [\<lparr>r_id = new_id, r_key = generateRoomKey U e,
            r_owner_id = s_user_id s, r_created_at = now d\<rparr>] \<and>
         \<not> list_ex (\<lambda>r. r_key r = generateRoomKey U e) (rooms d) \<and>
         roomId st1 = uuid_text new_id \<and>
         has_member d1 new_id (s_user_id s)"
proof -
  let ?k = "generateRoomKey U e"
  let ?row = "\<lparr>r_id = new_id, r_key = ?k, r_owner_id = s_user_id s, r_created_at = now d\<rparr>"
  obtain da ra where i: "rooms_insert d (s_user_id s) new_id ?k (s_user_id s) = (da, ra)"
    by (cases "rooms_insert d (s_user_id s) new_id ?k (s_user_id s)")
  show ?thesis
  proof (cases ra)
    case (Inl err)
    with s h i have "roomError st1 = or_else (error_message err) (js ''Failed to create room'')"
      by (auto simp: handleCreateRoom_def Let_def)
    with ok show ?thesis by (simp add: or_else_def error_message_nonempty)
  next
    case (Inr room)
    with i have ins: "\<not> list_ex (\<lambda>r. r_key r = ?k) (rooms d)" "room = ?row"
      "da = d\<lparr>rooms := rooms d @ [?row]\<rparr>"
      by (auto simp: rooms_insert_def Let_def split: if_splits)
    obtain db rb where u: "room_members_upsert da (s_user_id s) new_id (s_user_id s) = (db, rb)"
      by (cases "room_members_upsert da (s_user_id s) new_id (s_user_id s)")
    show ?thesis
    proof (cases rb)
      case (Inl memberError)
      with s h i Inr ins u have "roomError st1 = error_message memberError"
        by (auto simp: handleCreateRoom_def Let_def)
      with ok show ?thesis by (simp add: error_message_nonempty)
    next
      case (Inr x)
      with u have up: "db = da\<lparr>room_members := room_members da @ [new_member da new_id (s_user_id s)]\<rparr>"
        by (auto simp: room_members_upsert_def split: if_splits)
      from s h i \<open>ra = Inr room\<close> ins u Inr
      have "d1 = db" "roomId st1 = uuid_text new_id"
        by (auto simp: handleCreateRoom_def Let_def)
      with up ins show ?thesis
        by (simp add: has_member_def new_member_def)
    qed
  qed
qed

lemma joinRoomByKey_rpc_found:
  "find (\<lambda>r. r_key r = p) (rooms d) = Some r \<Longrightarrow>
   joinRoomByKey_rpc s p (d, st) =
     (insert_member_on_conflict_do_nothing d (r_id r) (s_user_id s),
      st\<lparr>roomError := [], roomLoading := False, roomId := uuid_text (r_id r),
         roomKeyInput := [], inviteInput := [], inviteKey := [],
         window := updateRoomInUrl (uuid_text (r_id r)) (window st)\<rparr>)"
  by (simp add: joinRoomByKey_rpc_def join_room_by_key_def Let_def uuid_text_nonempty)

lemma rooms_after_join: "rooms (fst (joinRoomByKey U k (d, st))) = rooms d"
proof (cases "session st")
  case None
  then show ?thesis by (simp add: joinRoomByKey_def)
next
  case (Some s)
  then show ?thesis
    by (cases "find (\<lambda>r. r_key r = toUpperCase U (trim k)) (rooms d)")
      (simp_all add: joinRoomByKey_def Let_def fst_joinRoomByKey_rpc join_room_by_key_def)
qed

lemma rooms_after_upsert: "rooms (fst (room_members_upsert d uid rid u)) = rooms d"
  by (simp add: room_members_upsert_def)

lemma rooms_after_rooms_insert:
  "rooms (fst (rooms_insert d uid new_id k owner)) = rooms d \<or>
   (\<exists>row. rooms (fst (rooms_insert d uid new_id k owner)) = rooms d @ [row])"
  by (simp add: rooms_insert_def Let_def)

lemma rooms_after_create:
  "rooms (fst (handleCreateRoom U e new_id (d, st))) = rooms d \<or>
   (\<exists>row. rooms (fst (handleCreateRoom U e new_id (d, st))) = rooms d @ [row])"
proof (cases "session st")
  case None
  then show ?thesis by (simp add: handleCreateRoom_def)
next
  case (Some s)
  show ?thesis
  proof (cases "supabase st")
    case False
    with Some show ?thesis by (simp add: handleCreateRoom_def)
  next
    case True
    let ?ins = "rooms_insert d (s_user_id s) new_id (generateRoomKey U e) (s_user_id s)"
    obtain d1 r1 where i: "?ins = (d1, r1)" by (cases ?ins)
    from rooms_after_rooms_insert [of d "s_user_id s" new_id "generateRoomKey U e" "s_user_id s"] i
    have r1: "rooms d1 = rooms d \<or> (\<exists>row. rooms d1 = rooms d @ [row])" by simp
    show ?thesis
    proof (cases r1)
      case (Inl err)
      with Some True i have "fst (handleCreateRoom U e new_id (d, st)) = d1"
        by (simp add: handleCreateRoom_def Let_def)
      with r1 show ?thesis by simp
    next
      case (Inr room)
      let ?up = "room_members_upsert d1 (s_user_id s) (r_id room) (s_user_id s)"
      obtain d2 r2 where u: "?up = (d2, r2)" by (cases ?up)
      from rooms_after_upsert [of d1 "s_user_id s" "r_id room" "s_user_id s"] u
      have r2: "rooms d2 = rooms d1" by simp
      from Some True i Inr u have "fst (handleCreateRoom U e new_id (d, st)) = d2"
        by (cases r2) (simp_all add: handleCreateRoom_def Let_def)
      with r1 r2 show ?thesis by simp
    qed
  qed
qed

lemma find_after_exec_op:
  assumes "find P (rooms d) = Some r"
  shows "find P (rooms (exec_op U op d)) = Some r"
proof (cases op)
  case (CreateRoom st e new_id)
  with rooms_after_create [of U e new_id d st] assms show ?thesis
    by (auto simp: find_append_old)
next
  case (JoinByKey st k)
  with assms show ?thesis by (simp add: rooms_after_join)
qed

lemma find_after_run_ops:
  "find P (rooms d) = Some r \<Longrightarrow> find P (rooms (run_ops U ops d)) = Some r"
  unfolding run_ops_def
  by (induction ops arbitrary: d) (simp_all add: find_after_exec_op)

text \<open>
  C1. A signed-in client's \<open>joinRoomByKey\<close> trims and upper-cases its input and calls the
  privileged lookup with the result (or stops when the result is empty). Hence, when a
  creator's \<open>handleCreateRoom\<close> has succeeded, giving the creator the room id \<open>roomId stC1\<close>,
  then after any further create and join operations a signed-in client that joins with
  the generated key in any letter case, with white space around it, gets the same room id,
  and is a member of that room afterwards.
\<close>

theorem join_by_key_normalises_and_resolves:
  assumes "session stC = Some sC" "supabase stC"
    and "handleCreateRoom U e new_id (d, stC) = (d1, stC1)" "roomError stC1 = []"
    and "session stJ = Some sJ" "supabase stJ"
    and "caseVariant (generateRoomKey U e) v"
    and "list_all isWhiteSpace pre" "list_all isWhiteSpace post"
  shows "joinRoomByKey U k (d', stJ) =
           (if toUpperCase U (trim k) = [] then (d', stJ\<lparr>roomError := js ''Enter a room key''\<rparr>)
            else joinRoomByKey_rpc sJ (toUpperCase U (trim k)) (d', stJ)) \<and>
         toUpperCase U (trim (pre @ v @ post)) = generateRoomKey U e \<and>
         roomId (snd (joinRoomByKey U (pre @ v @ post) (run_ops U ops d1, stJ))) = roomId stC1 \<and>
         roomId stC1 = uuid_text new_id \<and>
         has_member (fst (joinRoomByKey U (pre @ v @ post) (run_ops U ops d1, stJ)))
           new_id (s_user_id sJ)"
proof -
  let ?k = "generateRoomKey U e"
  let ?row = "\<lparr>r_id = new_id, r_key = ?k, r_owner_id = s_user_id sC, r_created_at = now d\<rparr>"
  let ?d2 = "run_ops U ops d1"
  note c = handleCreateRoom_success [OF assms(1-4)]
  have n: "toUpperCase U (trim (pre @ v @ post)) = ?k"
    by (rule normalise_variant [OF generateRoomKey_alphabet assms(7-9)])
  have ne: "?k \<noteq> []"
    using generateRoomKey_length [of U e] by auto
  from c have "find (\<lambda>r. r_key r = ?k) (rooms d1) = Some ?row"
    by (simp add: find_append_new)
  then have f: "find (\<lambda>r. r_key r = ?k) (rooms ?d2) = Some ?row"
    by (rule find_after_run_ops)
  show ?thesis
    using c
    by (simp add: joinRoomByKey_signed_in [OF assms(5,6)] n ne joinRoomByKey_rpc_found [OF f]
        has_member_after_insert)
qed

theorem join_by_key_normalises_and_resolves_witness:
  "generateRoomKey (\<lambda>s. s) (Crypto (\<lambda>i. of_nat (i * 47 + 200))) = js ''KV2DOZ'' \<and>
   caseVariant (js ''KV2DOZ'') (js ''kv2DoZ'') \<and>
   roomError (snd (handleCreateRoom (\<lambda>s. s) (Crypto (\<lambda>i. of_nat (i * 47 + 200))) 0x78
       (example_db, client1))) = [] \<and>
   toUpperCase (\<lambda>s. s) (trim (js '' '' @ js ''kv2DoZ'' @ js ''  '')) = js ''KV2DOZ'' \<and>
   roomId (snd (joinRoomByKey (\<lambda>s. s) (js '' '' @ js ''kv2DoZ'' @ js ''  '')
       (run_ops (\<lambda>s. s) [JoinByKey client2 (js ''8k2a1f'')]
          (fst (handleCreateRoom (\<lambda>s. s) (Crypto (\<lambda>i. of_nat (i * 47 + 200))) 0x78
             (example_db, client1))), client2))) =
     roomId (snd (handleCreateRoom (\<lambda>s. s) (Crypto (\<lambda>i. of_nat (i * 47 + 200))) 0x78
       (example_db, client1))) \<and>
   roomId (snd (handleCreateRoom (\<lambda>s. s) (Crypto (\<lambda>i. of_nat (i * 47 + 200))) 0x78
       (example_db, client1))) = js ''00000000-0000-0000-0000-000000000078''"
proof -
  let ?e = "Crypto (\<lambda>i. of_nat (i * 47 + 200))"
  let ?c = "handleCreateRoom (\<lambda>s. s) ?e 0x78 (example_db, client1)"
  have k: "generateRoomKey (\<lambda>s. s) ?e = js ''KV2DOZ''"
    by code_simp
  have v: "caseVariant (generateRoomKey (\<lambda>s. s) ?e) (js ''kv2DoZ'')"
    unfolding k by (simp add: caseVariant_def asciiLower_def js_def)
  have c1: "session client1 = Some example_session" "supabase client1"
    by (simp_all add: client1_def setSession_def App_init_def)
  have c2: "session client2 = Some example_session2" "supabase client2"
    by (simp_all add: client2_def setSession_def App_init_def)
  have ok: "roomError (snd ?c) = []"
    by code_simp
  have h: "?c = (fst ?c, snd ?c)"
    by simp
  have ws: "list_all isWhiteSpace (js '' '')" "list_all isWhiteSpace (js ''  '')"
    by (simp_all add: isWhiteSpace_def js_def)
  have t: "uuid_text 0x78 = js ''00000000-0000-0000-0000-000000000078''"
    by code_simp
  note inst = join_by_key_normalises_and_resolves
    [OF c1 h ok c2 v ws, of _ _ "[JoinByKey client2 (js ''8k2a1f'')]"]
  note a = inst [THEN conjunct2, THEN conjunct1, unfolded k]
  note b = inst [THEN conjunct2, THEN conjunct2, THEN conjunct1]
  note c = inst [THEN conjunct2, THEN conjunct2, THEN conjunct2, THEN conjunct1, unfolded t]
  show ?thesis by (intro conjI k v [unfolded k] ok a b c)
qed

section \<open>Joining by invite, and the automatic join\<close>

text \<open>
  C8, as the claim states it, fails: for an input of white space only the handler sets the
  error \<open>Enter an invite link or key\<close> and does not call \<open>joinRoomByKey\<close>, whose result on
  the trimmed text would be the error \<open>Enter a room key\<close>; and for an address whose
  \<open>invite\<close> parameter is present and empty the key is the trimmed text, not the value of
  the parameter.
\<close>

theorem join_by_invite_counterexample:
  "handleJoinByInvite example_upper example_parseURL (example_db, client2\<lparr>inviteInput := js ''  ''\<rparr>) \<noteq>
     joinRoomByKey example_upper (trim (js ''  '')) (example_db, client2\<lparr>inviteInput := js ''  ''\<rparr>) \<and>
   roomError (snd (handleJoinByInvite example_upper example_parseURL
       (example_db, client2\<lparr>inviteInput := js ''  ''\<rparr>))) = js ''Enter an invite link or key'' \<and>
   roomError (snd (joinRoomByKey example_upper (trim (js ''  ''))
       (example_db, client2\<lparr>inviteInput := js ''  ''\<rparr>))) = js ''Enter a room key'' \<and>
   example_parseURL (js ''https://app.example/?invite='') =
     Some \<lparr>url_base = js ''https://app.example/'', url_searchParams = [(js ''invite'', [])],
           url_hash = []\<rparr> \<and>
   inviteKeyValue example_parseURL (js ''https://app.example/?invite='') =
     js ''https://app.example/?invite=''"
proof -
  have a: "roomError (snd (handleJoinByInvite example_upper example_parseURL
       (example_db, client2\<lparr>inviteInput := js ''  ''\<rparr>))) = js ''Enter an invite link or key''"
    by code_simp
  have b: "roomError (snd (joinRoomByKey example_upper (trim (js ''  ''))
       (example_db, client2\<lparr>inviteInput := js ''  ''\<rparr>))) = js ''Enter a room key''"
    by code_simp
  have c: "js ''Enter an invite link or key'' \<noteq> js ''Enter a room key''"
    by (simp add: js_def)
  have d: "example_parseURL (js ''https://app.example/?invite='') =
     Some \<lparr>url_base = js ''https://app.example/'', url_searchParams = [(js ''invite'', [])],
           url_hash = []\<rparr>"
    by (simp add: example_parseURL_def js_def)
  have e: "inviteKeyValue example_parseURL (js ''https://app.example/?invite='') =
     js ''https://app.example/?invite=''"
    by code_simp
  from a b c have "handleJoinByInvite example_upper example_parseURL
        (example_db, client2\<lparr>inviteInput := js ''  ''\<rparr>) \<noteq>
     joinRoomByKey example_upper (trim (js ''  '')) (example_db, client2\<lparr>inviteInput := js ''  ''\<rparr>)"
    by metis
  with a b d e show ?thesis by blast
qed

text \<open>
  C8, amended. When the trimmed input is empty, the handler stores the error
  \<open>Enter an invite link or key\<close> and calls nothing. Otherwise it calls \<open>joinRoomByKey\<close>
  with a key that is the value of the \<open>invite\<close> parameter when the trimmed input parses as
  a URL and that value is not empty, and the trimmed input itself when parsing fails or
  the parameter is absent or empty.
\<close>

theorem join_by_invite_delegates:
  "(trim (inviteInput st) = [] \<longrightarrow>
      handleJoinByInvite U parseURL (d, st) =
        (d, st\<lparr>roomError := js ''Enter an invite link or key''\<rparr>)) \<and>
   (trim (inviteInput st) \<noteq> [] \<longrightarrow>
      handleJoinByInvite U parseURL (d, st) =
        joinRoomByKey U (inviteKeyValue parseURL (trim (inviteInput st))) (d, st)) \<and>
   (parseURL t = None \<longrightarrow> inviteKeyValue parseURL t = t) \<and>
   (parseURL t = Some u \<and> searchParams_get (js ''invite'') (url_searchParams u) = None \<longrightarrow>
      inviteKeyValue parseURL t = t) \<and>
   (parseURL t = Some u \<and> searchParams_get (js ''invite'') (url_searchParams u) = Some [] \<longrightarrow>
      inviteKeyValue parseURL t = t) \<and>
   (parseURL t = Some u \<and> searchParams_get (js ''invite'') (url_searchParams u) = Some x \<and>
      x \<noteq> [] \<longrightarrow> inviteKeyValue parseURL t = x)"
  by (simp add: handleJoinByInvite_def inviteKeyValue_def or_else_def Let_def)

theorem join_by_invite_delegates_witness:
  "trim (js '' https://app.example/?invite=8k2a1f '') = js ''https://app.example/?invite=8k2a1f'' \<and>
   inviteKeyValue example_parseURL (js ''https://app.example/?invite=8k2a1f'') = js ''8k2a1f'' \<and>
   inviteKeyValue example_parseURL (js ''8k2a1f'') = js ''8k2a1f'' \<and>
   handleJoinByInvite (\<lambda>s. s) example_parseURL
       (example_db, client2\<lparr>inviteInput := js '' https://app.example/?invite=8k2a1f ''\<rparr>) =
     joinRoomByKey (\<lambda>s. s) (js ''8k2a1f'')
       (example_db, client2\<lparr>inviteInput := js '' https://app.example/?invite=8k2a1f ''\<rparr>) \<and>
   roomId (snd (handleJoinByInvite (\<lambda>s. s) example_parseURL
       (example_db, client2\<lparr>inviteInput := js '' https://app.example/?invite=8k2a1f ''\<rparr>))) =
     js ''00000000-0000-0000-0000-000000000077'' \<and>
   handleJoinByInvite (\<lambda>s. s) example_parseURL (example_db, client2\<lparr>inviteInput := js ''  ''\<rparr>) =
     (example_db, client2\<lparr>inviteInput := js ''  '', roomError := js ''Enter an invite link or key''\<rparr>)"
proof -
  let ?t = "js ''https://app.example/?invite=8k2a1f''"
  let ?st = "client2\<lparr>inviteInput := js '' https://app.example/?invite=8k2a1f ''\<rparr>"
  let ?sw = "client2\<lparr>inviteInput := js ''  ''\<rparr>"
  have t: "trim (inviteInput ?st) = ?t"
    by (simp add: trim_def isWhiteSpace_def js_def)
  have t0: "trim (inviteInput ?sw) = []"
    by (simp add: trim_def isWhiteSpace_def js_def)
  have ne: "?t \<noteq> []"
    by (simp add: js_def)
  have p: "example_parseURL ?t = Some \<lparr>url_base = js ''https://app.example/'',
              url_searchParams = [(js ''invite'', js ''8k2a1f'')], url_hash = []\<rparr>"
    by (simp add: example_parseURL_def)
  have g: "searchParams_get (js ''invite'') (url_searchParams \<lparr>url_base = js ''https://app.example/'',
              url_searchParams = [(js ''invite'', js ''8k2a1f'')], url_hash = []\<rparr>) = Some (js ''8k2a1f'')"
    by (simp add: searchParams_get_def)
  have x: "js ''8k2a1f'' \<noteq> []"
    by (simp add: js_def)
  have q: "example_parseURL (js ''8k2a1f'') = None"
    by (simp add: example_parseURL_def js_def)
  have r: "roomId (snd (joinRoomByKey (\<lambda>s. s) (js ''8k2a1f'') (example_db, ?st))) =
     js ''00000000-0000-0000-0000-000000000077''"
    by code_simp
  note i1 = join_by_invite_delegates [of ?st "\<lambda>s. s" example_parseURL example_db ?t _ "js ''8k2a1f''"]
  note i2 = join_by_invite_delegates [of ?sw "\<lambda>s. s" example_parseURL example_db "js ''8k2a1f''"]
  have k1: "inviteKeyValue example_parseURL ?t = js ''8k2a1f''"
    using i1 p g x by blast
  have k2: "inviteKeyValue example_parseURL (js ''8k2a1f'') = js ''8k2a1f''"
    using i2 q by blast
  have h1: "handleJoinByInvite (\<lambda>s. s) example_parseURL (example_db, ?st) =
     joinRoomByKey (\<lambda>s. s) (js ''8k2a1f'') (example_db, ?st)"
    using i1 t ne k1 by simp
  have h0: "handleJoinByInvite (\<lambda>s. s) example_parseURL (example_db, ?sw) =
     (example_db, ?sw\<lparr>roomError := js ''Enter an invite link or key''\<rparr>)"
    using i2 t0 by blast
  from t have t': "trim (js '' https://app.example/?invite=8k2a1f '') = ?t" by simp
  show ?thesis using t' k1 k2 h1 h0 r by simp
qed

text \<open>
  C2, as the claim states it, fails: the address of the page has \<open>invite=XYZ987\<close>, a
  principal is signed in, and no room has the key. After the automatic join has resolved
  (with the error \<open>room-not-found\<close>) the address still has the parameter, and the stored
  invite key is still set, so the effect will join again when it next runs.
\<close>

theorem invite_left_after_failed_join_counterexample:
  "getInviteFromUrl (window (snd (inviteEffect example_upper
      (empty_db, setSession (Some example_session)
         (App_init True (example_window [(js ''invite'', js ''XYZ987'')])))))) = js ''XYZ987'' \<and>
   inviteKey (snd (inviteEffect example_upper
      (empty_db, setSession (Some example_session)
         (App_init True (example_window [(js ''invite'', js ''XYZ987'')]))))) = js ''XYZ987'' \<and>
   roomError (snd (inviteEffect example_upper
      (empty_db, setSession (Some example_session)
         (App_init True (example_window [(js ''invite'', js ''XYZ987'')]))))) = js ''room-not-found''"
  by code_simp

lemma toUpperCase_Nil: "toUpperCase U [] = []"
  by (simp add: toUpperCase_def)

lemma trim_Nil: "trim [] = []"
  by (simp add: trim_def)

lemma inviteEffect_found:
  assumes "session st = Some s" "supabase st"
    and "find (\<lambda>r. r_key r = toUpperCase U (trim (inviteKey st))) (rooms d) = Some r"
    and "toUpperCase U (trim (inviteKey st)) \<noteq> []"
  shows "inviteEffect U (d, st) =
     (insert_member_on_conflict_do_nothing d (r_id r) (s_user_id s),
      st\<lparr>roomError := [], roomLoading := False, roomId := uuid_text (r_id r),
         roomKeyInput := [], inviteInput := [], inviteKey := [],
         window := updateRoomInUrl (uuid_text (r_id r)) (window st)\<rparr>)"
proof -
  from assms(4) have "inviteKey st \<noteq> []"
    by (auto simp: trim_Nil toUpperCase_Nil)
  with assms show ?thesis
    by (simp add: inviteEffect_def joinRoomByKey_signed_in joinRoomByKey_rpc_found)
qed

lemma inviteEffect_not_found:
  assumes "\<not> list_ex (\<lambda>r. r_key r = toUpperCase U (trim (inviteKey st))) (rooms d)"
  shows "fst (inviteEffect U (d, st)) = d \<and>
         window (snd (inviteEffect U (d, st))) = window st \<and>
         inviteKey (snd (inviteEffect U (d, st))) = inviteKey st"
proof (cases "session st")
  case None
  then show ?thesis by (simp add: inviteEffect_def)
next
  case (Some s)
  with assms show ?thesis
    by (simp add: inviteEffect_def joinRoomByKey_def Let_def joinRoomByKey_rpc_unknown_key)
qed

text \<open>
  C2, amended. When the automatic join succeeds (the normalised invite key is the key of a
  room), the \<open>invite\<close> parameter is absent from the address afterwards and the stored
  invite key is empty, so the effect does nothing when it runs again: one attempt. When
  the key matches no room, the attempt leaves the database, the address and the stored
  invite key as they were.
\<close>

theorem invite_cleared_after_successful_join:
  "(session st = Some s \<and> supabase st \<and> toUpperCase U (trim (inviteKey st)) \<noteq> [] \<and>
    find (\<lambda>r. r_key r = toUpperCase U (trim (inviteKey st))) (rooms d) = Some r \<longrightarrow>
      searchParams_get (js ''invite'')
        (url_searchParams (h_current (window (snd (inviteEffect U (d, st)))))) = None \<and>
      getInviteFromUrl (window (snd (inviteEffect U (d, st)))) = [] \<and>
      inviteKey (snd (inviteEffect U (d, st))) = [] \<and>
      roomId (snd (inviteEffect U (d, st))) = uuid_text (r_id r) \<and>
      inviteEffect U (inviteEffect U (d, st)) = inviteEffect U (d, st)) \<and>
   (\<not> list_ex (\<lambda>r. r_key r = toUpperCase U (trim (inviteKey st))) (rooms d) \<longrightarrow>
      fst (inviteEffect U (d, st)) = d \<and>
      window (snd (inviteEffect U (d, st))) = window st \<and>
      inviteKey (snd (inviteEffect U (d, st))) = inviteKey st)"
proof (intro conjI impI)
  assume a: "session st = Some s \<and> supabase st \<and> toUpperCase U (trim (inviteKey st)) \<noteq> [] \<and>
    find (\<lambda>r. r_key r = toUpperCase U (trim (inviteKey st))) (rooms d) = Some r"
  then have e: "inviteEffect U (d, st) =
     (insert_member_on_conflict_do_nothing d (r_id r) (s_user_id s),
      st\<lparr>roomError := [], roomLoading := False, roomId := uuid_text (r_id r),
         roomKeyInput := [], inviteInput := [], inviteKey := [],
         window := updateRoomInUrl (uuid_text (r_id r)) (window st)\<rparr>)"
    by (simp add: inviteEffect_found)
  show "searchParams_get (js ''invite'')
        (url_searchParams (h_current (window (snd (inviteEffect U (d, st)))))) = None"
    by (simp add: e updateRoomInUrl_doc_invite)
  show "getInviteFromUrl (window (snd (inviteEffect U (d, st)))) = []"
    by (simp add: e getInviteFromUrl_def getSearchParam_def updateRoomInUrl_doc_invite)
  show "inviteKey (snd (inviteEffect U (d, st))) = []"
    by (simp add: e)
  show "roomId (snd (inviteEffect U (d, st))) = uuid_text (r_id r)"
    by (simp add: e)
  show "inviteEffect U (inviteEffect U (d, st)) = inviteEffect U (d, st)"
    unfolding e by (simp add: inviteEffect_def)
next
  assume n: "\<not> list_ex (\<lambda>r. r_key r = toUpperCase U (trim (inviteKey st))) (rooms d)"
  from inviteEffect_not_found [OF n]
  show "fst (inviteEffect U (d, st)) = d"
    and "window (snd (inviteEffect U (d, st))) = window st"
    and "inviteKey (snd (inviteEffect U (d, st))) = inviteKey st"
    by simp_all
qed

theorem invite_cleared_after_successful_join_witness:
  "inviteKey (setSession (Some example_session2)
      (App_init True (example_window [(js ''invite'', js ''8k2a1f''), (js ''a'', js ''1'')]))) =
     js ''8k2a1f'' \<and>
   getInviteFromUrl (window (snd (inviteEffect example_upper (example_db,
      setSession (Some example_session2)
        (App_init True (example_window [(js ''invite'', js ''8k2a1f''), (js ''a'', js ''1'')])))))) = [] \<and>
   inviteKey (snd (inviteEffect example_upper (example_db,
      setSession (Some example_session2)
        (App_init True (example_window [(js ''invite'', js ''8k2a1f''), (js ''a'', js ''1'')]))))) = [] \<and>
   roomId (snd (inviteEffect example_upper (example_db,
      setSession (Some example_session2)
        (App_init True (example_window [(js ''invite'', js ''8k2a1f''), (js ''a'', js ''1'')]))))) =
     js ''00000000-0000-0000-0000-000000000077'' \<and>
   window (snd (inviteEffect example_upper (empty_db,
      setSession (Some example_session2)
        (App_init True (example_window [(js ''invite'', js ''8k2a1f''), (js ''a'', js ''1'')]))))) =
     example_window [(js ''invite'', js ''8k2a1f''), (js ''a'', js ''1'')]"
proof -
  let ?st = "setSession (Some example_session2)
      (App_init True (example_window [(js ''invite'', js ''8k2a1f''), (js ''a'', js ''1'')]))"
  let ?room = "\<lparr>r_id = 0x77, r_key = js ''8K2A1F'', r_owner_id = 1, r_created_at = 3\<rparr>"
  have k: "inviteKey ?st = js ''8k2a1f''"
    by code_simp
  have n: "toUpperCase example_upper (trim (js ''8k2a1f'')) = js ''8K2A1F''"
    by code_simp
  have s: "session ?st = Some example_session2" "supabase ?st"
    by (simp_all add: setSession_def App_init_def)
  have ne: "toUpperCase example_upper (trim (inviteKey ?st)) \<noteq> []"
    unfolding k n by (simp add: js_def)
  have f: "find (\<lambda>r. r_key r = toUpperCase example_upper (trim (inviteKey ?st))) (rooms example_db) =
      Some ?room"
    unfolding k n by (simp add: example_db_def)
  have nf: "\<not> list_ex (\<lambda>r. r_key r = toUpperCase example_upper (trim (inviteKey ?st))) (rooms empty_db)"
    by (simp add: empty_db_def)
  have w: "window ?st = example_window [(js ''invite'', js ''8k2a1f''), (js ''a'', js ''1'')]"
    by (simp add: setSession_def App_init_def)
  have t: "uuid_text 0x77 = js ''00000000-0000-0000-0000-000000000077''"
    by code_simp
  note i1 = invite_cleared_after_successful_join
    [of ?st example_session2 example_upper example_db ?room, THEN conjunct1, rule_format,
     OF conjI [OF s(1) conjI [OF s(2) conjI [OF ne f]]]]
  note i2 = invite_cleared_after_successful_join
    [of ?st _ example_upper empty_db, THEN conjunct2, rule_format, OF nf]
  from i1 have a: "getInviteFromUrl (window (snd (inviteEffect example_upper (example_db, ?st)))) = []"
    and b: "inviteKey (snd (inviteEffect example_upper (example_db, ?st))) = []"
    and c: "roomId (snd (inviteEffect example_upper (example_db, ?st))) = uuid_text 0x77"
    by simp_all
  from i2 w have d: "window (snd (inviteEffect example_upper (empty_db, ?st))) =
      example_window [(js ''invite'', js ''8k2a1f''), (js ''a'', js ''1'')]"
    by simp
  show ?thesis using k a b c [unfolded t] d by (intro conjI)
qed

end
